theory Spec2Isabelle
  imports Main
begin

section \<open>JavaScript strings, numbers and JSON values\<close>

text \<open>
  The two deployment targets of the proxy, \<^verbatim>\<open>worker.js\<close> (Cloudflare Workers) and
  \<^verbatim>\<open>main.ts\<close> (Deno), are JavaScript modules (strict mode). The texts the stream
  transcoder reads and writes are JavaScript strings: lists of UTF-16 code units, each an
  integer from 0 to 65535. \<^term>\<open>js s\<close> is the string whose code units are the characters
  of the literal \<open>s\<close>.
  The built-ins the code calls (\<^verbatim>\<open>split\<close>, \<^verbatim>\<open>trim\<close>, \<^verbatim>\<open>startsWith\<close>, \<^verbatim>\<open>slice\<close>,
  \<^verbatim>\<open>includes\<close>, \<^verbatim>\<open>JSON.parse\<close>, \<^verbatim>\<open>JSON.stringify\<close>) are modelled by executable
  functions that follow ECMA-262.
\<close>

type_synonym jstring = "int list"

abbreviation js :: "string \<Rightarrow> jstring" where
  "js s \<equiv> map of_char s"

subsection \<open>Numbers\<close>

text \<open>
  A number is an IEEE 754 double: \<^term>\<open>Finite neg m e\<close> is \<open>m * 2^e\<close>, negative when
  \<open>neg\<close> holds, with \<open>m = 0\<close> and \<open>e = 0\<close> for the two zeros, \<open>2^52 \<le> m < 2^53\<close> and
  \<open>-1074 \<le> e \<le> 971\<close> for a normal number, and \<open>0 < m < 2^52\<close> and \<open>e = -1074\<close> for a
  subnormal one. All arithmetic on them is exact arithmetic on integers.
\<close>

datatype double = Finite bool int int | Infinity bool

definition pw :: "int \<Rightarrow> int \<Rightarrow> int" where
  "pw b k = (if k > 0 then b ^ nat k else 1)"

text \<open>The number of binary digits of a positive integer.\<close>

function bits :: "int \<Rightarrow> nat" where
  "bits n = (if n \<le> 0 then 0 else Suc (bits (n div 2)))"
  by pat_completeness auto
termination
  by (relation "measure nat") auto

definition round_half_even :: "int \<Rightarrow> int \<Rightarrow> int" where
  "round_half_even n d =
     (let q = n div d; r = n mod d
      in if 2 * r > d \<or> (2 * r = d \<and> odd q) then q + 1 else q)"

text \<open>
  The double nearest to \<open>M * 10^E\<close> (\<open>M \<ge> 0\<close>), ties to even: the value of a decimal
  literal. \<open>e0\<close> is the exponent that puts the quotient between \<open>2^52\<close> and \<open>2^53\<close>;
  below \<open>-1074\<close> the number is subnormal; a result of \<open>2^1024\<close> or more is infinite.
\<close>

definition to_double :: "bool \<Rightarrow> int \<Rightarrow> int \<Rightarrow> double" where
  "to_double neg M E =
     (if M \<le> 0 then Finite neg 0 0
      else
        let num = M * pw 10 E; den = pw 10 (- E);
            d = int (bits num) - int (bits den);
            e0 = (if num * pw 2 (- d) \<ge> den * pw 2 d then d - 52 else d - 53);
            e = max e0 (- 1074);
            m = round_half_even (num * pw 2 (- e)) (den * pw 2 e);
            m' = (if m = 2 ^ 53 then 2 ^ 52 else m);
            e' = (if m = 2 ^ 53 then e + 1 else e)
        in if m' = 0 then Finite neg 0 0
           else if e' > 971 then Infinity neg
           else Finite neg m' e')"

text \<open>
  \<^verbatim>\<open>Number::toString\<close> (ECMA-262, 6.1.6.1.20) on a positive double \<open>m * 2^e\<close>: the
  integers \<open>n\<close>, \<open>k\<close> and \<open>s\<close> with \<open>10^(k-1) \<le> s < 10^k\<close> such that \<open>s * 10^(n-k)\<close>
  is read back as the same double, \<open>k\<close> as small as possible and then \<open>s * 10^(n-k)\<close>
  as close to the double as possible.
\<close>

function ndigits :: "int \<Rightarrow> nat" where
  "ndigits n = (if n \<le> 0 then 0 else Suc (ndigits (n div 10)))"
  by pat_completeness auto
termination
  by (relation "measure nat") auto

text \<open>The least \<open>j\<close> with \<open>10^j * num \<ge> den\<close>, for \<open>num > 0\<close>.\<close>

function scale_up :: "int \<Rightarrow> int \<Rightarrow> nat" where
  "scale_up num den = (if num \<le> 0 \<or> num \<ge> den then 0 else Suc (scale_up (10 * num) den))"
  by pat_completeness auto
termination
  by (relation "measure (\<lambda>(num, den). nat (den - num))") auto

text \<open>The \<open>n\<close> with \<open>10^(n-1) \<le> m * 2^e < 10^n\<close>.\<close>

definition decimal_exponent :: "int \<Rightarrow> int \<Rightarrow> int" where
  "decimal_exponent m e =
     (if e \<ge> 0 then int (ndigits (m * 2 ^ nat e))
      else
        let den = 2 ^ nat (- e)
        in if m \<ge> den then int (ndigits (m div den)) else 1 - int (scale_up m den))"

text \<open>
  To compare \<open>s * 10^p\<close> with \<open>L * 2^q\<close>, both are multiplied by the powers of ten and
  of two that make them integers.
\<close>

definition dec_side :: "int \<Rightarrow> int \<Rightarrow> int \<Rightarrow> int" where
  "dec_side s p q = s * pw 10 p * pw 2 (- q)"

definition bin_side :: "int \<Rightarrow> int \<Rightarrow> int \<Rightarrow> int" where
  "bin_side L p q = L * pw 2 q * pw 10 (- p)"

text \<open>
  \<open>s * 10^p\<close> is read back as \<open>m * 2^e\<close>: it lies between the midpoints to the two
  neighbouring doubles, counted in units of \<open>2^(e-2)\<close>; the midpoints themselves count
  when \<open>m\<close> is even. Just above a power of two the lower neighbour is half as far away.
\<close>

definition reads_back :: "int \<Rightarrow> int \<Rightarrow> int \<Rightarrow> int \<Rightarrow> bool" where
  "reads_back m e s p =
     (let q = e - 2;
          lo = bin_side (if m = 2 ^ 52 \<and> e > - 1074 then 4 * m - 1 else 4 * m - 2) p q;
          hi = bin_side (4 * m + 2) p q;
          d = dec_side s p q
      in if even m then lo \<le> d \<and> d \<le> hi else lo < d \<and> d < hi)"

text \<open>
  The digits \<open>s\<close> for a given \<open>k\<close>, if there are any: of the two \<open>k\<close>-digit decimals
  around the double, those that are read back as it, and of two the closer one (the even
  one when both are as close). With seventeen digits there always is one.
\<close>

definition candidate :: "int \<Rightarrow> int \<Rightarrow> int \<Rightarrow> nat \<Rightarrow> bool \<Rightarrow> int option" where
  "candidate m e n k last_k =
     (let p = n - int k;
          slo = (m * pw 2 e * pw 10 (- p)) div (pw 2 (- e) * pw 10 p);
          shi = slo + 1;
          a = reads_back m e slo p;
          b = reads_back m e shi p;
          mid = dec_side (2 * slo + 1) p (e - 2);
          x2 = bin_side (8 * m) p (e - 2)
      in if (a \<and> b) \<or> (last_k \<and> \<not> a \<and> \<not> b) then
           Some (if x2 < mid then slo else if mid < x2 then shi
                 else if even slo then slo else shi)
         else if a then Some slo
         else if b then Some shi
         else None)"

text \<open>The search for the least \<open>k\<close>, from \<open>k\<close> up to \<open>k + left\<close>.\<close>

fun shortest :: "int \<Rightarrow> int \<Rightarrow> int \<Rightarrow> nat \<Rightarrow> nat \<Rightarrow> int \<times> nat" where
  "shortest m e n 0 k =
     (case candidate m e n k True of Some s \<Rightarrow> (s, k) | None \<Rightarrow> (0, k))"
| "shortest m e n (Suc left) k =
     (case candidate m e n k False of
        Some s \<Rightarrow> (s, k)
      | None \<Rightarrow> shortest m e n left (Suc k))"

text \<open>The decimal digits of an integer that is not negative.\<close>

function decimal :: "int \<Rightarrow> jstring" where
  "decimal n = (if n < 10 then [48 + n] else decimal (n div 10) @ [48 + n mod 10])"
  by pat_completeness auto
termination
  by (relation "measure nat") auto

definition format_number :: "int \<Rightarrow> int \<Rightarrow> nat \<Rightarrow> jstring" where
  "format_number s n k =
     (let ds = decimal s in
      if int k \<le> n \<and> n \<le> 21 then ds @ replicate (nat (n - int k)) 48
      else if 0 < n \<and> n \<le> 21 then take (nat n) ds @ js ''.'' @ drop (nat n) ds
      else if - 6 < n \<and> n \<le> 0 then js ''0.'' @ replicate (nat (- n)) 48 @ ds
      else
        let tail = js ''e'' @ (if n - 1 > 0 then js ''+'' else js ''-'') @ decimal (abs (n - 1))
        in if k = 1 then ds @ tail else take 1 ds @ js ''.'' @ drop 1 ds @ tail)"

definition Number_toString :: "double \<Rightarrow> jstring" where
  "Number_toString x =
     (case x of
        Infinity neg \<Rightarrow> (if neg then js ''-Infinity'' else js ''Infinity'')
      | Finite neg m e \<Rightarrow>
          if m = 0 then js ''0''
          else
            (if neg then js ''-'' else []) @
            (let n = decimal_exponent m e in
             case shortest m e n 16 1 of
               (s, k) \<Rightarrow>
                 if s = 10 ^ k then format_number (s div 10) (n + 1) k
                 else format_number s n k))"

subsection \<open>JSON values\<close>

datatype json =
    JNull
  | JBool bool
  | JNum double
  | JStr jstring
  | JArr "json list"
  | JObj "(jstring \<times> json) list"

datatype js_error = SyntaxError | TypeError

subsection \<open>Own properties of an object, in enumeration order\<close>

definition is_digit :: "int \<Rightarrow> bool" where
  "is_digit c = (c \<in> set (js ''0123456789''))"

definition dec :: "jstring \<Rightarrow> int" where
  "dec s = foldl (\<lambda>n c. 10 * n + (c - 48)) 0 s"

text \<open>An array index is a canonical numeric string below \<open>2^32 - 1\<close>.\<close>

definition array_index :: "jstring \<Rightarrow> int option" where
  "array_index s =
     (if s \<noteq> [] \<and> list_all is_digit s \<and> (s = js ''0'' \<or> hd s \<noteq> of_char (CHR ''0''))
         \<and> dec s < 4294967295
      then Some (dec s) else None)"

text \<open>
  The keys of an ordinary object are enumerated with the array indices first, in
  ascending order, then the other keys in the order of their creation. The list of a
  \<^term>\<open>JObj\<close> is kept in that order: a new key goes to its place, an existing key keeps
  its place when its value is replaced.
\<close>

definition comes_before :: "jstring \<Rightarrow> jstring \<Rightarrow> bool" where
  "comes_before k k' =
     (case array_index k of
        None \<Rightarrow> False
      | Some i \<Rightarrow> (case array_index k' of None \<Rightarrow> True | Some j \<Rightarrow> i < j))"

fun obj_insert :: "jstring \<Rightarrow> json \<Rightarrow> (jstring \<times> json) list \<Rightarrow> (jstring \<times> json) list" where
  "obj_insert k v [] = [(k, v)]"
| "obj_insert k v (p # ps) =
     (if comes_before k (fst p) then (k, v) # p # ps else p # obj_insert k v ps)"

definition obj_set :: "jstring \<Rightarrow> json \<Rightarrow> (jstring \<times> json) list \<Rightarrow> (jstring \<times> json) list" where
  "obj_set k v ps =
     (if map_of ps k \<noteq> None then map (\<lambda>p. if fst p = k then (k, v) else p) ps
      else obj_insert k v ps)"

definition obj_delete :: "jstring \<Rightarrow> (jstring \<times> json) list \<Rightarrow> (jstring \<times> json) list" where
  "obj_delete k ps = filter (\<lambda>p. fst p \<noteq> k) ps"

subsection \<open>\<^verbatim>\<open>JSON.parse\<close>\<close>

datatype token = TLBrace | TRBrace | TLBrack | TRBrack | TColon | TComma | TVal json

datatype lstate =
    LStart
  | LStr jstring
  | LEsc jstring
  | LUni jstring jstring
  | LNum jstring
  | LLit jstring

definition is_ws :: "int \<Rightarrow> bool" where
  "is_ws c = (c \<in> {0x20, 0x09, 0x0A, 0x0D})"

definition is_lower :: "int \<Rightarrow> bool" where
  "is_lower c = (c \<in> set (js ''abcdefghijklmnopqrstuvwxyz''))"

definition is_num_char :: "int \<Rightarrow> bool" where
  "is_num_char c = (is_digit c \<or> c \<in> set (js ''+-.eE''))"

definition hex_val :: "int \<Rightarrow> int option" where
  "hex_val c =
     (if is_digit c then Some (c - 48)
      else if c \<in> set (js ''abcdef'') then Some (c - 87)
      else if c \<in> set (js ''ABCDEF'') then Some (c - 55)
      else None)"

definition hex4 :: "jstring \<Rightarrow> int" where
  "hex4 hs = foldl (\<lambda>n c. 16 * n + (case hex_val c of Some d \<Rightarrow> d | None \<Rightarrow> 0)) 0 hs"

text \<open>The grammar of a JSON number: \<^verbatim>\<open>-? (0 | [1-9][0-9]*) (. [0-9]+)? ([eE] [+-]? [0-9]+)?\<close>.\<close>

definition num_digits :: "jstring \<Rightarrow> jstring option" where
  "num_digits s =
     (case s of [] \<Rightarrow> None
      | c # cs \<Rightarrow> if is_digit c then Some (dropWhile is_digit cs) else None)"

definition num_int :: "jstring \<Rightarrow> jstring option" where
  "num_int s =
     (case s of [] \<Rightarrow> None
      | c # cs \<Rightarrow> if c = of_char (CHR ''0'') then Some cs else num_digits s)"

definition num_frac :: "jstring \<Rightarrow> jstring option" where
  "num_frac s =
     (case s of [] \<Rightarrow> Some []
      | c # cs \<Rightarrow> if c = of_char (CHR ''.'') then num_digits cs else Some s)"

definition num_exp :: "jstring \<Rightarrow> jstring option" where
  "num_exp s =
     (case s of [] \<Rightarrow> Some []
      | c # cs \<Rightarrow>
          if c = of_char (CHR ''e'') \<or> c = of_char (CHR ''E'') then
            (case cs of [] \<Rightarrow> None
             | d # ds \<Rightarrow>
                 if d = of_char (CHR ''+'') \<or> d = of_char (CHR ''-'') then num_digits ds
                 else num_digits cs)
          else Some s)"

definition valid_number :: "jstring \<Rightarrow> bool" where
  "valid_number s =
     (case num_int (if take 1 s = js ''-'' then drop 1 s else s) of
        None \<Rightarrow> False
      | Some r1 \<Rightarrow>
          (case num_frac r1 of
             None \<Rightarrow> False
           | Some r2 \<Rightarrow> num_exp r2 = Some []))"

text \<open>
  The value of a literal of that grammar: with the digits \<open>ip\<close> before the point, \<open>fp\<close>
  after it and the exponent \<open>ex\<close>, the double nearest to \<open>ip fp * 10^(ex - length fp)\<close>.
\<close>

definition number_value :: "jstring \<Rightarrow> double" where
  "number_value s =
     (let neg = (take 1 s = js ''-'');
          s1 = (if neg then drop 1 s else s);
          ip = takeWhile is_digit s1;
          r1 = dropWhile is_digit s1;
          dot = (take 1 r1 = js ''.'');
          fp = (if dot then takeWhile is_digit (drop 1 r1) else []);
          r2 = (if dot then dropWhile is_digit (drop 1 r1) else r1);
          r3 = drop 1 r2;
          ex = (if take 1 r3 = js ''-'' then - dec (drop 1 r3)
                else if take 1 r3 = js ''+'' then dec (drop 1 r3)
                else dec r3)
      in to_double neg (dec (ip @ fp)) (ex - int (length fp)))"

definition literal :: "jstring \<Rightarrow> json option" where
  "literal s =
     (if s = js ''true'' then Some (JBool True)
      else if s = js ''false'' then Some (JBool False)
      else if s = js ''null'' then Some JNull
      else None)"

text \<open>
  The lexer reads one code unit at a time. \<^term>\<open>lstart\<close> is the step between two
  tokens; a number or a literal ends at the first code unit that cannot continue it, and
  that code unit is then read by \<^term>\<open>lstart\<close>. Inside a string every code unit from
  32 on stands for itself, but the quote and the backslash; an escape \<^verbatim>\<open>\uXXXX\<close> is the
  code unit of that number.
\<close>

definition lstart :: "int \<Rightarrow> (token list \<times> lstate) option" where
  "lstart c =
     (if is_ws c then Some ([], LStart)
      else if c = of_char (CHR ''{'') then Some ([TLBrace], LStart)
      else if c = of_char (CHR ''}'') then Some ([TRBrace], LStart)
      else if c = of_char (CHR ''['') then Some ([TLBrack], LStart)
      else if c = of_char (CHR '']'') then Some ([TRBrack], LStart)
      else if c = of_char (CHR '':'') then Some ([TColon], LStart)
      else if c = of_char (CHR '','') then Some ([TComma], LStart)
      else if c = 0x22 then Some ([], LStr [])
      else if c = of_char (CHR ''-'') \<or> is_digit c then Some ([], LNum [c])
      else if is_lower c then Some ([], LLit [c])
      else None)"

definition unescape :: "int \<Rightarrow> int option" where
  "unescape c =
     (if c = 0x22 \<or> c = 0x5C \<or> c = of_char (CHR ''/'') then Some c
      else if c = of_char (CHR ''b'') then Some 0x08
      else if c = of_char (CHR ''f'') then Some 0x0C
      else if c = of_char (CHR ''n'') then Some 0x0A
      else if c = of_char (CHR ''r'') then Some 0x0D
      else if c = of_char (CHR ''t'') then Some 0x09
      else None)"

fun lstep :: "lstate \<Rightarrow> int \<Rightarrow> (token list \<times> lstate) option" where
  "lstep LStart c = lstart c"
| "lstep (LStr acc) c =
     (if c = 0x22 then Some ([TVal (JStr acc)], LStart)
      else if c = 0x5C then Some ([], LEsc acc)
      else if c < 32 then None
      else Some ([], LStr (acc @ [c])))"
| "lstep (LEsc acc) c =
     (if c = of_char (CHR ''u'') then Some ([], LUni acc [])
      else (case unescape c of None \<Rightarrow> None | Some d \<Rightarrow> Some ([], LStr (acc @ [d]))))"
| "lstep (LUni acc hs) c =
     (if hex_val c = None then None
      else if length hs = 3 then Some ([], LStr (acc @ [hex4 (hs @ [c])]))
      else Some ([], LUni acc (hs @ [c])))"
| "lstep (LNum acc) c =
     (if is_num_char c then Some ([], LNum (acc @ [c]))
      else if valid_number acc then
        (case lstart c of
           None \<Rightarrow> None
         | Some (ts, st) \<Rightarrow> Some (TVal (JNum (number_value acc)) # ts, st))
      else None)"
| "lstep (LLit acc) c =
     (if is_lower c then Some ([], LLit (acc @ [c]))
      else (case literal acc of
              None \<Rightarrow> None
            | Some v \<Rightarrow>
                (case lstart c of None \<Rightarrow> None | Some (ts, st) \<Rightarrow> Some (TVal v # ts, st))))"

fun lfinish :: "lstate \<Rightarrow> token list option" where
  "lfinish LStart = Some []"
| "lfinish (LNum acc) =
     (if valid_number acc then Some [TVal (JNum (number_value acc))] else None)"
| "lfinish (LLit acc) = (case literal acc of None \<Rightarrow> None | Some v \<Rightarrow> Some [TVal v])"
| "lfinish _ = None"

fun lex :: "lstate \<Rightarrow> jstring \<Rightarrow> token list option" where
  "lex st [] = lfinish st"
| "lex st (c # cs) =
     (case lstep st c of
        None \<Rightarrow> None
      | Some (ts, st') \<Rightarrow> (case lex st' cs of None \<Rightarrow> None | Some us \<Rightarrow> Some (ts @ us)))"

text \<open>
  The parser reads one token at a time and keeps the arrays and objects it is inside
  of on a stack: \<^term>\<open>FArr vs\<close> is an array whose elements so far are \<open>vs\<close>,
  \<^term>\<open>FObj ps k\<close> an object whose members so far are \<open>ps\<close> and whose next value
  belongs to the key \<open>k\<close>. A key that occurs twice keeps its first place and its last
  value.
\<close>

datatype frame = FArr "json list" | FObj "(jstring \<times> json) list" jstring

datatype pstate =
    PValue "frame list"
  | PArrStart "frame list"
  | PObjStart "frame list"
  | PKey "(jstring \<times> json) list" "frame list"
  | PColon "(jstring \<times> json) list" jstring "frame list"
  | PAfter json "frame list"

fun begin_value :: "frame list \<Rightarrow> token \<Rightarrow> pstate option" where
  "begin_value st (TVal v) = Some (PAfter v st)"
| "begin_value st TLBrack = Some (PArrStart st)"
| "begin_value st TLBrace = Some (PObjStart st)"
| "begin_value st _ = None"

fun pstep :: "pstate \<Rightarrow> token \<Rightarrow> pstate option" where
  "pstep (PValue st) t = begin_value st t"
| "pstep (PArrStart st) t =
     (if t = TRBrack then Some (PAfter (JArr []) st) else begin_value (FArr [] # st) t)"
| "pstep (PObjStart st) t =
     (case t of
        TRBrace \<Rightarrow> Some (PAfter (JObj []) st)
      | TVal (JStr k) \<Rightarrow> Some (PColon [] k st)
      | _ \<Rightarrow> None)"
| "pstep (PKey ps st) t =
     (case t of TVal (JStr k) \<Rightarrow> Some (PColon ps k st) | _ \<Rightarrow> None)"
| "pstep (PColon ps k st) t =
     (if t = TColon then Some (PValue (FObj ps k # st)) else None)"
| "pstep (PAfter v []) t = None"
| "pstep (PAfter v (FArr vs # st)) t =
     (case t of
        TComma \<Rightarrow> Some (PValue (FArr (vs @ [v]) # st))
      | TRBrack \<Rightarrow> Some (PAfter (JArr (vs @ [v])) st)
      | _ \<Rightarrow> None)"
| "pstep (PAfter v (FObj ps k # st)) t =
     (case t of
        TComma \<Rightarrow> Some (PKey (obj_set k v ps) st)
      | TRBrace \<Rightarrow> Some (PAfter (JObj (obj_set k v ps)) st)
      | _ \<Rightarrow> None)"

fun psteps :: "pstate \<Rightarrow> token list \<Rightarrow> pstate option" where
  "psteps p [] = Some p"
| "psteps p (t # ts) = (case pstep p t of None \<Rightarrow> None | Some p' \<Rightarrow> psteps p' ts)"

text \<open>\<^verbatim>\<open>JSON.parse(text)\<close>: the value, or the \<^verbatim>\<open>SyntaxError\<close> it throws.\<close>

definition JSON_parse :: "jstring \<Rightarrow> js_error + json" where
  "JSON_parse s =
     (case lex LStart s of
        None \<Rightarrow> Inl SyntaxError
      | Some ts \<Rightarrow>
          (case psteps (PValue []) ts of
             Some (PAfter v []) \<Rightarrow> Inr v
           | _ \<Rightarrow> Inl SyntaxError))"

subsection \<open>\<^verbatim>\<open>JSON.stringify\<close>\<close>

definition hex_digit :: "int \<Rightarrow> int" where
  "hex_digit n = js ''0123456789abcdef'' ! nat (n mod 16)"

text \<open>The escape \<^verbatim>\<open>\uXXXX\<close> of a code unit, in lower case.\<close>

definition unicode_escape :: "int \<Rightarrow> jstring" where
  "unicode_escape c =
     [0x5C, of_char (CHR ''u''), hex_digit (c div 4096), hex_digit (c div 256),
      hex_digit (c div 16), hex_digit c]"

definition quote_unit :: "int \<Rightarrow> jstring" where
  "quote_unit c =
     (if c = 0x22 then [0x5C, 0x22]
      else if c = 0x5C then [0x5C, 0x5C]
      else if c = 0x08 then [0x5C, of_char (CHR ''b'')]
      else if c = 0x09 then [0x5C, of_char (CHR ''t'')]
      else if c = 0x0A then [0x5C, of_char (CHR ''n'')]
      else if c = 0x0C then [0x5C, of_char (CHR ''f'')]
      else if c = 0x0D then [0x5C, of_char (CHR ''r'')]
      else if c < 32 then unicode_escape c
      else [c])"

definition is_lead :: "int \<Rightarrow> bool" where
  "is_lead c = (0xD800 \<le> c \<and> c \<le> 0xDBFF)"

definition is_trail :: "int \<Rightarrow> bool" where
  "is_trail c = (0xDC00 \<le> c \<and> c \<le> 0xDFFF)"

text \<open>
  \<^verbatim>\<open>QuoteJSONString\<close> walks over the code points: a surrogate pair stands for itself, a
  surrogate that is not part of a pair is written as an escape.
\<close>

fun quote_units :: "jstring \<Rightarrow> jstring" where
  "quote_units [] = []"
| "quote_units [c] = (if is_lead c \<or> is_trail c then unicode_escape c else quote_unit c)"
| "quote_units (c # d # cs) =
     (if is_lead c \<and> is_trail d then c # d # quote_units cs
      else if is_lead c \<or> is_trail c then unicode_escape c @ quote_units (d # cs)
      else quote_unit c @ quote_units (d # cs))"

definition quote :: "jstring \<Rightarrow> jstring" where
  "quote s = [0x22] @ quote_units s @ [0x22]"

fun join :: "jstring \<Rightarrow> jstring list \<Rightarrow> jstring" where
  "join sep [] = []"
| "join sep [x] = x"
| "join sep (x # y # ys) = x @ sep @ join sep (y # ys)"

text \<open>A number that is not finite is written \<^verbatim>\<open>null\<close>.\<close>

fun JSON_stringify :: "json \<Rightarrow> jstring" where
  "JSON_stringify JNull = js ''null''"
| "JSON_stringify (JBool b) = (if b then js ''true'' else js ''false'')"
| "JSON_stringify (JNum x) =
     (case x of Infinity neg \<Rightarrow> js ''null'' | Finite neg m e \<Rightarrow> Number_toString x)"
| "JSON_stringify (JStr s) = quote s"
| "JSON_stringify (JArr vs) = js ''['' @ join (js '','') (map JSON_stringify vs) @ js '']''"
| "JSON_stringify (JObj ps) =
     js ''{'' @ join (js '','')
       (map (\<lambda>p. quote (fst p) @ js '':'' @ JSON_stringify (snd p)) ps) @ js ''}''"

subsection \<open>String built-ins and property access\<close>

text \<open>\<^verbatim>\<open>s.split("\n")\<close>: the pieces between the line feeds, at least one.\<close>

fun split_nl :: "jstring \<Rightarrow> jstring list" where
  "split_nl [] = [[]]"
| "split_nl (c # cs) =
     (if c = 0x0A then [] # split_nl cs
      else (case split_nl cs of [] \<Rightarrow> [[c]] | l # ls \<Rightarrow> (c # l) # ls))"

text \<open>
  \<^verbatim>\<open>s.trim()\<close> removes white space and line terminators at both ends: the code units
  of \<^verbatim>\<open>WhiteSpace\<close> (tab, vertical tab, form feed, the byte order mark and the space
  separators of Unicode) and of \<^verbatim>\<open>LineTerminator\<close>.
\<close>

definition is_js_space :: "int \<Rightarrow> bool" where
  "is_js_space c =
     (c \<in> {0x09, 0x0A, 0x0B, 0x0C, 0x0D, 0x20, 0xA0, 0x1680, 0x2028, 0x2029, 0x202F,
            0x205F, 0x3000, 0xFEFF}
      \<or> (0x2000 \<le> c \<and> c \<le> 0x200A))"

definition trim :: "jstring \<Rightarrow> jstring" where
  "trim s = rev (dropWhile is_js_space (rev (dropWhile is_js_space s)))"

definition startsWith :: "'a list \<Rightarrow> 'a list \<Rightarrow> bool" where
  "startsWith s p = (take (length p) s = p)"

text \<open>\<^verbatim>\<open>s.includes(p)\<close>: \<open>p\<close> occurs in \<open>s\<close> at some position.\<close>

fun str_includes :: "'a list \<Rightarrow> 'a list \<Rightarrow> bool" where
  "str_includes [] p = (p = [])"
| "str_includes (c # cs) p = (startsWith (c # cs) p \<or> str_includes cs p)"

text \<open>
  \<^term>\<open>get_prop v k\<close> is \<^verbatim>\<open>v[k]\<close> for a value \<open>v\<close> that is not \<^verbatim>\<open>null\<close>, and
  \<^term>\<open>None\<close> stands for \<^verbatim>\<open>undefined\<close>. The keys the code reads are \<^verbatim>\<open>choices\<close>,
  \<^verbatim>\<open>0\<close>, \<^verbatim>\<open>delta\<close>, \<^verbatim>\<open>content\<close>, \<^verbatim>\<open>text\<close> and \<^verbatim>\<open>finish_reason\<close>: none of them is a
  property of a prototype, so an object has them as own properties or not at all, an
  array and a string have only their indices, a number and a boolean have none.
  \<^term>\<open>opt_prop v k\<close> is the optional chain \<^verbatim>\<open>v?.[k]\<close>.
\<close>

fun get_prop :: "json \<Rightarrow> jstring \<Rightarrow> json option" where
  "get_prop (JObj ps) k = map_of ps k"
| "get_prop (JArr vs) k =
     (case array_index k of
        None \<Rightarrow> None
      | Some i \<Rightarrow> if i < int (length vs) then Some (vs ! nat i) else None)"
| "get_prop (JStr s) k =
     (case array_index k of
        None \<Rightarrow> None
      | Some i \<Rightarrow> if i < int (length s) then Some (JStr [s ! nat i]) else None)"
| "get_prop _ k = None"

fun opt_prop :: "json option \<Rightarrow> jstring \<Rightarrow> json option" where
  "opt_prop None k = None"
| "opt_prop (Some JNull) k = None"
| "opt_prop (Some v) k = get_prop v k"

text \<open>
  \<^verbatim>\<open>ToBoolean\<close>: \<^verbatim>\<open>undefined\<close>, \<^verbatim>\<open>null\<close>, \<^verbatim>\<open>false\<close>, the two zeros and the empty string
  are falsy (\<^verbatim>\<open>JSON.parse\<close> never gives \<^verbatim>\<open>NaN\<close>).
\<close>

fun truthy :: "json option \<Rightarrow> bool" where
  "truthy None = False"
| "truthy (Some JNull) = False"
| "truthy (Some (JBool b)) = b"
| "truthy (Some (JNum x)) = (case x of Finite neg m e \<Rightarrow> m \<noteq> 0 | Infinity neg \<Rightarrow> True)"
| "truthy (Some (JStr s)) = (s \<noteq> [])"
| "truthy (Some (JArr vs)) = True"
| "truthy (Some (JObj ps)) = True"

text \<open>
  \<^term>\<open>assign t k v\<close> is the assignment \<^verbatim>\<open>t[k] = v\<close> in strict mode, for the keys
  \<^verbatim>\<open>delta\<close> and \<^verbatim>\<open>content\<close>: the target after the assignment, or the \<^verbatim>\<open>TypeError\<close>
  thrown when the target is \<^verbatim>\<open>undefined\<close>, \<^verbatim>\<open>null\<close> or a primitive value. On an array the
  assignment creates a property that is not an element: \<^verbatim>\<open>JSON.stringify\<close> does not
  print it, and the code reads it back only where \<^verbatim>\<open>undefined\<close> leads to the same branch
  (an array has no \<^verbatim>\<open>text\<close>, \<^verbatim>\<open>content\<close> or \<^verbatim>\<open>finish_reason\<close>), so the array stays as it is.
\<close>

fun assign :: "json option \<Rightarrow> jstring \<Rightarrow> json \<Rightarrow> js_error + json" where
  "assign (Some (JObj ps)) k v = Inr (JObj (obj_set k v ps))"
| "assign (Some (JArr vs)) k v = Inr (JArr vs)"
| "assign _ k v = Inl TypeError"

section \<open>The stream transcoder\<close>

subsection \<open>Field normalization (\<^verbatim>\<open>worker.js\<close> 222-230, \<^verbatim>\<open>main.ts\<close> 280-288)\<close>

text \<open>\<^verbatim>\<open>data.choices?.[0]\<close>, for \<open>data\<close> that is not \<^verbatim>\<open>null\<close>.\<close>

definition choices0 :: "json \<Rightarrow> json option" where
  "choices0 data = opt_prop (get_prop data (js ''choices'')) (js ''0'')"

text \<open>
  The value \<open>data\<close> after its \<^verbatim>\<open>choices[0]\<close> has been changed in place to \<open>e\<close>:
  \<^verbatim>\<open>choices\<close> is an array, or an object with the key \<^verbatim>\<open>0\<close>.
\<close>

definition put_choices0 :: "json \<Rightarrow> json \<Rightarrow> json" where
  "put_choices0 data e =
     (case data of
        JObj dps \<Rightarrow>
          (case map_of dps (js ''choices'') of
             Some (JArr vs) \<Rightarrow> JObj (obj_set (js ''choices'') (JArr (vs[0 := e])) dps)
           | Some (JObj cps) \<Rightarrow>
               JObj (obj_set (js ''choices'') (JObj (obj_set (js ''0'') e cps)) dps)
           | _ \<Rightarrow> data)
      | _ \<Rightarrow> data)"

text \<open>
  \<^verbatim>\<open>if (data.choices?.[0]?.delta === undefined) { data.choices[0].delta = {}; }\<close>
  Reading \<^verbatim>\<open>data.choices\<close> throws when \<open>data\<close> is \<^verbatim>\<open>null\<close>; reading \<^verbatim>\<open>[0]\<close> without the
  optional chain throws when \<^verbatim>\<open>data.choices\<close> is \<^verbatim>\<open>undefined\<close> or \<^verbatim>\<open>null\<close>.
\<close>

definition ensure_delta :: "json \<Rightarrow> js_error + json" where
  "ensure_delta data =
     (if data = JNull then Inl TypeError
      else if opt_prop (choices0 data) (js ''delta'') = None then
        (case get_prop data (js ''choices'') of
           None \<Rightarrow> Inl TypeError
         | Some JNull \<Rightarrow> Inl TypeError
         | Some c \<Rightarrow>
             (case assign (get_prop c (js ''0'')) (js ''delta'') (JObj []) of
                Inl err \<Rightarrow> Inl err
              | Inr e \<Rightarrow> Inr (put_choices0 data e)))
      else Inr data)"

text \<open>
  \<^verbatim>\<open>if (data.choices?.[0]?.delta?.content === undefined && data.choices?.[0]?.text) {
     data.choices[0].delta.content = data.choices[0].text; delete data.choices[0].text; }\<close>
  Only an object has a truthy \<^verbatim>\<open>text\<close>, so inside the branch \<^verbatim>\<open>data.choices[0]\<close> is an
  object.
\<close>

definition text_to_content :: "json \<Rightarrow> js_error + json" where
  "text_to_content data =
     (if opt_prop (opt_prop (choices0 data) (js ''delta'')) (js ''content'') = None
         \<and> truthy (opt_prop (choices0 data) (js ''text''))
      then
        (case choices0 data of
           Some (JObj ps) \<Rightarrow>
             (case map_of ps (js ''text'') of
                None \<Rightarrow> Inr data
              | Some t \<Rightarrow>
                  (case assign (map_of ps (js ''delta'')) (js ''content'') t of
                     Inl err \<Rightarrow> Inl err
                   | Inr d \<Rightarrow>
                       Inr (put_choices0 data
                              (JObj (obj_delete (js ''text'') (obj_set (js ''delta'') d ps))))))
         | _ \<Rightarrow> Inr data)
      else Inr data)"

definition normalize :: "json \<Rightarrow> js_error + json" where
  "normalize data =
     (case ensure_delta data of Inl err \<Rightarrow> Inl err | Inr data' \<Rightarrow> text_to_content data')"

subsection \<open>One \<^verbatim>\<open>data: \<close> line (\<^verbatim>\<open>worker.js\<close> 216-239, \<^verbatim>\<open>main.ts\<close> 273-298)\<close>

definition DONE :: jstring where
  "DONE = js ''data: [DONE]\<newline>\<newline>''"

definition event :: "json \<Rightarrow> jstring" where
  "event data = js ''data: '' @ JSON_stringify data @ js ''\<newline>\<newline>''"

text \<open>
  The statements both files run on a line that starts with \<^verbatim>\<open>data: \<close>: the texts they
  enqueue, and whether they end with \<^verbatim>\<open>return\<close> (\<^term>\<open>True\<close>) or fall through to the
  next line; \<^term>\<open>Inl\<close> is the exception thrown.
\<close>

definition line_body :: "jstring \<Rightarrow> js_error + (jstring list \<times> bool)" where
  "line_body line =
     (case JSON_parse (drop 6 line) of
        Inl err \<Rightarrow> Inl err
      | Inr data \<Rightarrow>
          if data = JStr (js ''[DONE]'') then Inr ([DONE], True)
          else
            (case normalize data of
               Inl err \<Rightarrow> Inl err
             | Inr d \<Rightarrow>
                 if truthy (opt_prop (choices0 d) (js ''finish_reason''))
                 then Inr ([event d, DONE], True)
                 else Inr ([event d], False)))"

subsection \<open>\<^verbatim>\<open>worker.js\<close>: \<^verbatim>\<open>transformStream\<close>\<close>

text \<open>
  The loop over the complete lines of a chunk: the texts enqueued. An exception of
  the body is caught, logged, and the loop continues; a \<^verbatim>\<open>return\<close> leaves
  \<^verbatim>\<open>transform\<close>, that is, drops the lines left in this chunk.
\<close>

fun process_lines :: "jstring list \<Rightarrow> jstring list" where
  "process_lines [] = []"
| "process_lines (line # lines) =
     (if trim line = [] then process_lines lines
      else if \<not> startsWith line (js ''data: '') then process_lines lines
      else
        (case line_body line of
           Inl err \<Rightarrow> process_lines lines
         | Inr (out, returned) \<Rightarrow> if returned then out else out @ process_lines lines))"

text \<open>
  \<^verbatim>\<open>transform(chunk, controller)\<close> with the closure variable \<^verbatim>\<open>buffer\<close>: the texts
  enqueued and the new buffer.
\<close>

definition transform :: "jstring \<Rightarrow> jstring \<Rightarrow> jstring list \<times> jstring" where
  "transform buffer chunk =
     (let lines = split_nl (buffer @ chunk)
      in (process_lines (butlast lines), last lines))"

definition flush :: "jstring \<Rightarrow> jstring list" where
  "flush buffer =
     (if trim buffer \<noteq> [] then
        (let line = trim buffer in
         if startsWith line (js ''data: '') then
           (case JSON_parse (drop 6 line) of
              Inl err \<Rightarrow> []
            | Inr data \<Rightarrow>
                if data \<noteq> JStr (js ''[DONE]'') then [line @ js ''\<newline>\<newline>''] else [])
         else [])
      else [])
     @ [DONE]"

text \<open>
  The stream: \<^verbatim>\<open>transform\<close> is called on every chunk in turn (a \<^verbatim>\<open>return\<close> inside it
  ends that call only: nothing terminates the stream), and \<^verbatim>\<open>flush\<close> when the upstream
  has closed.
\<close>

fun pipe :: "jstring \<Rightarrow> jstring list \<Rightarrow> jstring list" where
  "pipe buffer [] = flush buffer"
| "pipe buffer (chunk # chunks) =
     (case transform buffer chunk of (out, buffer') \<Rightarrow> out @ pipe buffer' chunks)"

definition worker_stream :: "jstring list \<Rightarrow> jstring list" where
  "worker_stream chunks = pipe [] chunks"

text \<open>A line on which the loop of \<^verbatim>\<open>transform\<close> ends with \<^verbatim>\<open>return\<close>.\<close>

definition returns :: "jstring \<Rightarrow> bool" where
  "returns line =
     (trim line \<noteq> [] \<and> startsWith line (js ''data: '') \<and>
      (case line_body line of Inl err \<Rightarrow> False | Inr (out, returned) \<Rightarrow> returned))"

subsection \<open>\<^verbatim>\<open>main.ts\<close>: the \<^verbatim>\<open>ReadableStream\<close> of \<^verbatim>\<open>handleChatCompletions\<close>\<close>

text \<open>
  How the stream ends: \<^verbatim>\<open>controller.close()\<close>, or \<^verbatim>\<open>controller.error(error)\<close> in the
  handler of the one \<^verbatim>\<open>try\<close> around the whole loop.
\<close>

datatype ending = Closed | Errored js_error

text \<open>
  The loop over the lines of a chunk (all of them: there is no buffer): the texts
  enqueued, and the ending when the loop was left by \<^verbatim>\<open>return\<close> or by an exception.
\<close>

fun deno_lines :: "jstring list \<Rightarrow> jstring list \<times> ending option" where
  "deno_lines [] = ([], None)"
| "deno_lines (line # lines) =
     (if trim line = [] then deno_lines lines
      else if \<not> startsWith line (js ''data: '') then deno_lines lines
      else
        (case line_body line of
           Inl err \<Rightarrow> ([], Some (Errored err))
         | Inr (out, returned) \<Rightarrow>
             if returned then (out, Some Closed)
             else (case deno_lines lines of (out', e) \<Rightarrow> (out @ out', e))))"

text \<open>
  The \<^verbatim>\<open>while (true)\<close> loop over \<^verbatim>\<open>reader.read()\<close>, for a response that has a body;
  the empty list is \<^verbatim>\<open>done\<close>. The texts are those enqueued up to the ending.
\<close>

fun deno_stream :: "jstring list \<Rightarrow> jstring list \<times> ending" where
  "deno_stream [] = ([DONE], Closed)"
| "deno_stream (chunk # chunks) =
     (case deno_lines (split_nl chunk) of
        (out, Some e) \<Rightarrow> (out, e)
      | (out, None) \<Rightarrow> (case deno_stream chunks of (out', e) \<Rightarrow> (out @ out', e)))"

section \<open>The token lifecycle manager\<close>

text \<open>
  \<^verbatim>\<open>getValidToken\<close> is the same in both files up to the store it uses (a Cloudflare KV
  namespace, the Deno KV). The store is a map from the API key to the cached record; a time
  is a number of milliseconds. Keys, tokens, status texts and messages are texts the code
  only passes on, joins and searches: they are \<^typ>\<open>string\<close>s.
\<close>

record TokenInfo =
  token :: string
  refreshToken :: string
  expiresAt :: int

text \<open>A JavaScript \<^verbatim>\<open>Error\<close> with its \<^verbatim>\<open>message\<close>.\<close>

datatype error = Error (message: string)

text \<open>
  What a call of \<^verbatim>\<open>fetch\<close> to the identity provider comes to: a response that is not
  \<^verbatim>\<open>ok\<close>, with its status text; a response that is \<^verbatim>\<open>ok\<close>, with the token, the refresh
  token and the lifetime in seconds of its body; or no usable response at all
  (\<^verbatim>\<open>fetch\<close> or \<^verbatim>\<open>response.json()\<close> rejects with an error of the given message).
\<close>

datatype response =
    Status string
  | Ok string string int
  | Failure string

datatype effect =
    Get string
  | Put string TokenInfo
  | Register string
  | Refresh string string

text \<open>
  The world a call runs in: the store, the clock (\<^verbatim>\<open>Date.now()\<close>), the answers of the
  identity provider to the successive calls of \<^verbatim>\<open>fetch\<close> (each with the time at which
  it is complete), the number of calls made so far, and the log of the effects so far.
\<close>

record world =
  KV :: "string \<Rightarrow> TokenInfo option"
  now :: int
  network :: "nat \<Rightarrow> int \<times> response"
  fetched :: nat
  trace :: "effect list"

definition KV_get :: "string \<Rightarrow> world \<Rightarrow> TokenInfo option \<times> world" where
  "KV_get key w = (KV w key, w\<lparr>trace := trace w @ [Get key]\<rparr>)"

definition KV_put :: "string \<Rightarrow> TokenInfo \<Rightarrow> world \<Rightarrow> world" where
  "KV_put key v w = w\<lparr>KV := (KV w)(key \<mapsto> v), trace := trace w @ [Put key v]\<rparr>"

text \<open>One call of \<^verbatim>\<open>fetch\<close>: the answer, the clock at its completion, the log.\<close>

definition fetch :: "effect \<Rightarrow> world \<Rightarrow> response \<times> world" where
  "fetch call w =
     (case network w (fetched w) of
        (t, r) \<Rightarrow> (r, w\<lparr>now := t, fetched := fetched w + 1, trace := trace w @ [call]\<rparr>))"

definition registerUser :: "string \<Rightarrow> world \<Rightarrow> (error + TokenInfo) \<times> world" where
  "registerUser apiKey w =
     (case fetch (Register apiKey) w of
        (Status statusText, w') \<Rightarrow> (Inl (Error (''Failed to register user: '' @ statusText)), w')
      | (Failure m, w') \<Rightarrow> (Inl (Error m), w')
      | (Ok idToken rt expiresIn, w') \<Rightarrow>
          (Inr \<lparr>token = idToken, refreshToken = rt, expiresAt = now w' + expiresIn * 1000\<rparr>, w'))"

text \<open>The function \<^verbatim>\<open>refreshToken\<close>; the name itself is taken by the field of the record.\<close>

definition refreshToken_fn :: "string \<Rightarrow> string \<Rightarrow> world \<Rightarrow> (error + TokenInfo) \<times> world" where
  "refreshToken_fn apiKey rt w =
     (case fetch (Refresh apiKey rt) w of
        (Status statusText, w') \<Rightarrow> (Inl (Error (''Failed to refresh token: '' @ statusText)), w')
      | (Failure m, w') \<Rightarrow> (Inl (Error m), w')
      | (Ok id_token rt' expires_in, w') \<Rightarrow>
          (Inr \<lparr>token = id_token, refreshToken = rt', expiresAt = now w' + expires_in * 1000\<rparr>, w'))"

text \<open>\<^verbatim>\<open>await KV.put(apiKey, ...newTokenInfo); return newTokenInfo.token;\<close> after a call.\<close>

definition store_and_return ::
  "string \<Rightarrow> (error + TokenInfo) \<times> world \<Rightarrow> (error + string) \<times> world" where
  "store_and_return apiKey res =
     (case res of
        (Inl e, w) \<Rightarrow> (Inl e, w)
      | (Inr newTokenInfo, w) \<Rightarrow> (Inr (token newTokenInfo), KV_put apiKey newTokenInfo w))"

text \<open>The \<^verbatim>\<open>try\<close> block of \<^verbatim>\<open>getValidToken\<close>.\<close>

definition try_block :: "string \<Rightarrow> TokenInfo option \<Rightarrow> world \<Rightarrow> (error + string) \<times> world" where
  "try_block apiKey tokenInfo w =
     (case tokenInfo of
        None \<Rightarrow> store_and_return apiKey (registerUser apiKey w)
      | Some ti \<Rightarrow>
          if now w \<ge> expiresAt ti - 300000
          then store_and_return apiKey (refreshToken_fn apiKey (refreshToken ti) w)
          else (Inr (token ti), w))"

definition getValidToken :: "string \<Rightarrow> world \<Rightarrow> (error + string) \<times> world" where
  "getValidToken apiKey w =
     (case KV_get apiKey w of
        (tokenInfo, w1) \<Rightarrow>
          (case try_block apiKey tokenInfo w1 of
             (Inr t, w2) \<Rightarrow> (Inr t, w2)
           | (Inl e, w2) \<Rightarrow>
               if str_includes (message e) ''Failed to refresh token''
               then store_and_return apiKey (registerUser apiKey w2)
               else (Inl e, w2)))"

definition is_Get :: "effect \<Rightarrow> bool" where
  "is_Get e = (case e of Get k \<Rightarrow> True | _ \<Rightarrow> False)"

definition is_Put :: "effect \<Rightarrow> bool" where
  "is_Put e = (case e of Put k v \<Rightarrow> True | _ \<Rightarrow> False)"

subsection \<open>Example worlds\<close>

text \<open>
  A cached record that expires at 1000000, and the worlds the examples run in. In
  \<open>w_stale\<close> the record is inside the renewal margin, the refresh is refused and the
  registration succeeds; in \<open>w_denied\<close> the registration is refused as well; in
  \<open>w_down\<close> the refresh gets no response at all. In \<open>w_fresh\<close> the record is still
  fresh. In \<open>w_new\<close> there is no cached record and the registration is refused with a
  peculiar status text.
\<close>

definition ti_old :: TokenInfo where
  "ti_old = \<lparr>token = ''old'', refreshToken = ''r0'', expiresAt = 1000000\<rparr>"

definition w_stale :: world where
  "w_stale =
     \<lparr>KV = [''k'' \<mapsto> ti_old], now = 800000,
      network = (\<lambda>n. if n = 0 then (800100, Status ''Bad Request'')
                     else (800200, Ok ''tok'' ''ref'' 3600)),
      fetched = 0, trace = []\<rparr>"

definition w_denied :: world where
  "w_denied =
     w_stale\<lparr>network := (\<lambda>n. if n = 0 then (800100, Status ''Bad Request'')
                              else (800200, Status ''Forbidden''))\<rparr>"

definition w_down :: world where
  "w_down =
     w_stale\<lparr>network := (\<lambda>n. if n = 0 then (800100, Failure ''fetch failed'')
                              else (800200, Ok ''tok'' ''ref'' 3600))\<rparr>"

definition w_fresh :: world where
  "w_fresh = w_stale\<lparr>now := 600000\<rparr>"

definition w_new :: world where
  "w_new =
     \<lparr>KV = Map.empty, now = 800000,
      network = (\<lambda>n. if n = 0 then (800100, Status ''Failed to refresh token'')
                     else (800200, Ok ''tok'' ''ref'' 3600)),
      fetched = 0, trace = []\<rparr>"

section \<open>Properties of the stream transcoder\<close>

subsection \<open>Lines and chunks\<close>

lemma split_nl_not_Nil: "split_nl s \<noteq> []"
  by (induction s) (auto split: list.splits)

lemma split_nl_no_newline: "0x0A \<notin> set s \<Longrightarrow> split_nl s = [s]"
  by (induction s) auto

lemma last_split_nl_no_newline: "0x0A \<notin> set (last (split_nl s))"
  by (induction s) (auto split: list.splits)

lemma split_nl_line:
  "0x0A \<notin> set line \<Longrightarrow> split_nl (line @ 0x0A # rest) = line # split_nl rest"
  using split_nl_not_Nil [of rest] by (induction line) (auto split: list.splits)

text \<open>
  Splitting a text that continues: the complete lines of the first part, then the
  lines of its last, incomplete line with the rest.
\<close>

lemma split_nl_append:
  "split_nl (a @ b) = butlast (split_nl a) @ split_nl (last (split_nl a) @ b)"
proof (induction a)
  case Nil
  show ?case by simp
next
  case (Cons c a)
  show ?case
  proof (cases "c = 0x0A")
    case True
    with Cons show ?thesis by (simp add: split_nl_not_Nil)
  next
    case False
    obtain l ls where a: "split_nl a = l # ls"
      using split_nl_not_Nil [of a] by (cases "split_nl a") auto
    show ?thesis
    proof (cases ls)
      case Nil
      with False a Cons show ?thesis by simp
    next
      case (Cons l' ls')
      with False a Cons.IH show ?thesis by simp
    qed
  qed
qed

lemma startsWith_data_trim: "startsWith line (js ''data: '') \<Longrightarrow> trim line \<noteq> []"
proof -
  assume "startsWith line (js ''data: '')"
  then obtain r where l: "line = 100 # r"
    by (cases line) (auto simp: startsWith_def)
  have d: "\<not> is_js_space (100)" by (simp add: is_js_space_def)
  have "dropWhile is_js_space line = line" using l d by simp
  moreover have "dropWhile is_js_space (rev line) \<noteq> []"
    using l d by auto
  ultimately show ?thesis by (simp add: trim_def)
qed

lemma process_lines_blank: "process_lines ([] # lines) = process_lines lines"
  by (simp add: trim_def)

lemma process_lines_append:
  "\<forall>line \<in> set xs. \<not> returns line \<Longrightarrow>
   process_lines (xs @ ys) = process_lines xs @ process_lines ys"
  by (induction xs) (auto simp: returns_def split: sum.splits prod.splits)

lemma transform_append:
  assumes "\<forall>line \<in> set (butlast (split_nl (buffer @ a))). \<not> returns line"
  shows "transform buffer (a @ c) =
           (fst (transform buffer a) @ fst (transform (snd (transform buffer a)) c),
            snd (transform (snd (transform buffer a)) c))"
proof -
  have "split_nl (buffer @ a @ c) =
          butlast (split_nl (buffer @ a)) @ split_nl (last (split_nl (buffer @ a)) @ c)"
    using split_nl_append [of "buffer @ a" c] by simp
  then show ?thesis
    using assms
    by (simp add: transform_def Let_def butlast_append split_nl_not_Nil process_lines_append)
qed

lemma transform_no_newline:
  "0x0A \<notin> set (buffer @ a) \<Longrightarrow> transform buffer a = ([], buffer @ a)"
  by (simp add: transform_def split_nl_no_newline)

text \<open>
  As long as no line makes \<^verbatim>\<open>transform\<close> return, the events of \<^verbatim>\<open>worker.js\<close> do not
  depend on where the upstream cuts its chunks.
\<close>

lemma pipe_concat:
  "0x0A \<notin> set buffer \<Longrightarrow>
   \<forall>line \<in> set (butlast (split_nl (buffer @ concat chunks))). \<not> returns line \<Longrightarrow>
   pipe buffer chunks = pipe buffer [concat chunks]"
proof (induction chunks arbitrary: buffer)
  case Nil
  then show ?case by (simp add: transform_no_newline)
next
  case (Cons c cs)
  let ?b1 = "snd (transform buffer c)"
  have sp: "split_nl (buffer @ c @ concat cs) =
          butlast (split_nl (buffer @ c)) @ split_nl (last (split_nl (buffer @ c)) @ concat cs)"
    using split_nl_append [of "buffer @ c" "concat cs"] by simp
  have b1: "?b1 = last (split_nl (buffer @ c))"
    by (simp add: transform_def Let_def)
  have nr1: "\<forall>line \<in> set (butlast (split_nl (buffer @ c))). \<not> returns line"
    using Cons.prems(2) sp by (simp add: butlast_append split_nl_not_Nil)
  have nr2: "\<forall>line \<in> set (butlast (split_nl (?b1 @ concat cs))). \<not> returns line"
    using Cons.prems(2) sp b1 by (simp add: butlast_append split_nl_not_Nil)
  have nn: "0x0A \<notin> set ?b1"
    using b1 last_split_nl_no_newline by simp
  have IH: "pipe ?b1 cs = pipe ?b1 [concat cs]"
    using Cons.IH [OF nn nr2] .
  obtain o1 b1 where t1: "transform buffer c = (o1, b1)"
    by (cases "transform buffer c")
  obtain o2 b2 where t2: "transform b1 (concat cs) = (o2, b2)"
    by (cases "transform b1 (concat cs)")
  have "transform buffer (c @ concat cs) = (o1 @ o2, b2)"
    using transform_append [OF nr1, of "concat cs"] t1 t2 by simp
  moreover have "pipe b1 cs = o2 @ flush b2"
    using IH t1 t2 by simp
  ultimately show ?case
    using t1 by simp
qed

text \<open>
  The carry-over buffer of \<^verbatim>\<open>worker.js\<close>: a chunk that ends inside a line emits
  nothing, and the stream goes on as if the two chunks had come as one.
\<close>

lemma worker_split_line:
  assumes "0x0A \<notin> set a"
  shows "worker_stream (a # c # chunks) = worker_stream ((a @ c) # chunks)"
proof -
  have "transform [] (a @ c) =
          (fst (transform (snd (transform [] a)) c), snd (transform (snd (transform [] a)) c))"
    using transform_append [of "[]" a c] assms
    by (simp add: split_nl_no_newline transform_no_newline)
  then show ?thesis
    using assms by (simp add: worker_stream_def transform_no_newline split: prod.splits)
qed

lemma pipe_split_line:
  "0x0A \<notin> set buffer \<Longrightarrow> 0x0A \<notin> set a \<Longrightarrow>
   pipe buffer (pre @ a # c # post) = pipe buffer (pre @ (a @ c) # post)"
proof (induction pre arbitrary: buffer)
  case Nil
  have "transform buffer (a @ c) = transform (buffer @ a) c"
    by (simp add: transform_def)
  with Nil show ?case
    by (simp add: transform_no_newline)
next
  case (Cons p pre)
  obtain out b where t: "transform buffer p = (out, b)"
    by (cases "transform buffer p")
  have "b = last (split_nl (buffer @ p))"
    using t by (simp add: transform_def Let_def)
  then have "0x0A \<notin> set b"
    using last_split_nl_no_newline by simp
  then have "pipe b (pre @ a # c # post) = pipe b (pre @ (a @ c) # post)"
    using Cons.IH Cons.prems(2) by simp
  then show ?case
    using t by simp
qed

text \<open>
  A line whose body enqueues one event and goes on, cut anywhere into two chunks, comes
  out of \<^verbatim>\<open>worker.js\<close> as that one event.
\<close>

lemma worker_split_line_one_event:
  assumes "startsWith (a @ b) (js ''data: '')"
      and "line_body (a @ b) = Inr ([e], False)"
      and "0x0A \<notin> set (a @ b)"
  shows "worker_stream [a, b @ js ''\<newline>''] = [e, DONE]"
proof -
  have "worker_stream [a, b @ js ''\<newline>''] = worker_stream [a @ b @ js ''\<newline>'']"
    using worker_split_line [of a "b @ js ''\<newline>''" "[]"] assms(3) by simp
  moreover have "split_nl (a @ b @ js ''\<newline>'') = [a @ b, []]"
    using split_nl_line [of "a @ b" "[]"] assms(3) by simp
  moreover have "process_lines [a @ b] = [e]"
    using assms(1,2) startsWith_data_trim [OF assms(1)] by simp
  moreover have "flush [] = [DONE]"
    by (simp add: flush_def trim_def)
  ultimately show ?thesis
    by (simp add: worker_stream_def transform_def del: process_lines.simps)
qed

lemma flush_ends_with_DONE: "last (flush buffer) = DONE"
  by (simp add: flush_def)

lemma worker_stream_ends_with_DONE: "last (worker_stream chunks) = DONE"
proof -
  have "pipe buffer chunks \<noteq> [] \<and> last (pipe buffer chunks) = DONE" for buffer
  proof (induction chunks arbitrary: buffer)
    case Nil
    show ?case by (simp add: flush_def)
  next
    case (Cons c cs)
    then show ?case by (simp split: prod.splits)
  qed
  then show ?thesis by (simp add: worker_stream_def)
qed

subsection \<open>Termination of the stream\<close>

text \<open>
  Claim C1 (every output stream ends with exactly one terminal \<^verbatim>\<open>data: [DONE]\<close> event,
  never zero and never two). The code does not keep it. In \<^verbatim>\<open>worker.js\<close> the
  \<^verbatim>\<open>return\<close> after a \<^verbatim>\<open>finish_reason\<close> ends one call of \<^verbatim>\<open>transform\<close> and not the
  stream, so \<^verbatim>\<open>flush\<close> adds a second \<^verbatim>\<open>[DONE]\<close> when the upstream closes: an ordinary
  completion (a content chunk, the final chunk with \<^verbatim>\<open>finish_reason\<close>, the upstream's own
  \<^verbatim>\<open>data: [DONE]\<close>) is terminated twice. In \<^verbatim>\<open>main.ts\<close> the upstream's \<^verbatim>\<open>data: [DONE]\<close>
  line, when no \<^verbatim>\<open>finish_reason\<close> came before it, makes \<^verbatim>\<open>JSON.parse\<close> throw, and the
  stream is put into the error state with no \<^verbatim>\<open>[DONE]\<close> at all.
\<close>

theorem worker_terminates_twice:
  \<open>worker_stream
     [js ''data: {"choices":[{"delta":{"content":"hi"},"finish_reason":null}]}\<newline>\<newline>'',
      js ''data: {"choices":[{"delta":{},"finish_reason":"stop"}]}\<newline>\<newline>data: [DONE]\<newline>\<newline>'']
   = [js ''data: {"choices":[{"delta":{"content":"hi"},"finish_reason":null}]}\<newline>\<newline>'',
      js ''data: {"choices":[{"delta":{},"finish_reason":"stop"}]}\<newline>\<newline>'',
      DONE, DONE]
   \<and> deno_stream [js ''data: {"choices":[{"delta":{"content":"hi"}}]}\<newline>\<newline>data: [DONE]\<newline>\<newline>'']
   = ([js ''data: {"choices":[{"delta":{"content":"hi"}}]}\<newline>\<newline>''], Errored SyntaxError)\<close>
  by code_simp

text \<open>
  Claim C2 (a line that is exactly \<^verbatim>\<open>data: [DONE]\<close> is recognised as the sentinel, one
  terminal event is emitted and the stream ends). The code compares the result of
  \<^verbatim>\<open>JSON.parse\<close> with the string \<^verbatim>\<open>[DONE]\<close>, but \<^verbatim>\<open>[DONE]\<close> is not a JSON text: the
  parse throws. \<^verbatim>\<open>worker.js\<close> skips the line as a malformed one and goes on with the
  lines after it; \<^verbatim>\<open>main.ts\<close> ends the stream in the error state.
\<close>

theorem sentinel_line_not_recognised:
  \<open>JSON_parse (js ''[DONE]'') = Inl SyntaxError
   \<and> worker_stream [js ''data: [DONE]\<newline>data: {"choices":[{"delta":{"content":"late"}}]}\<newline>'']
     = [js ''data: {"choices":[{"delta":{"content":"late"}}]}\<newline>\<newline>'', DONE]
   \<and> deno_stream [js ''data: [DONE]\<newline>''] = ([], Errored SyntaxError)\<close>
  by code_simp

text \<open>What both files do recognise is the JSON string, a payload with quotes.\<close>

lemma quoted_sentinel_recognised:
  \<open>line_body (js ''data: "[DONE]"'') = Inr ([DONE], True)
   \<and> deno_stream [js ''data: "[DONE]"\<newline>'', js ''data: {"choices":[{}]}\<newline>''] = ([DONE], Closed)
   \<and> worker_stream [js ''data: "[DONE]"\<newline>''] = [DONE, DONE]\<close>
  by code_simp

text \<open>
  Claim C3 (after a line with a \<^verbatim>\<open>finish_reason\<close>: the normalized event, one terminal
  \<^verbatim>\<open>[DONE]\<close>, and all later input ignored). \<^verbatim>\<open>worker.js\<close> ignores only the rest of the
  chunk: the next chunk is transformed as usual, and \<^verbatim>\<open>flush\<close> adds another \<^verbatim>\<open>[DONE]\<close>.
\<close>

theorem worker_continues_after_finish_reason:
  \<open>worker_stream
     [js ''data: {"choices":[{"finish_reason":"stop"}]}\<newline>'',
      js ''data: {"choices":[{"delta":{"content":"late"}}]}\<newline>'']
   = [js ''data: {"choices":[{"finish_reason":"stop","delta":{}}]}\<newline>\<newline>'', DONE,
      js ''data: {"choices":[{"delta":{"content":"late"}}]}\<newline>\<newline>'', DONE]\<close>
  by code_simp

text \<open>
  \<^verbatim>\<open>main.ts\<close> does what C3 says: on a line that returns it closes the stream, and
  nothing after that line is read.
\<close>

lemma deno_closes_at_return:
  assumes "startsWith line (js ''data: '')"
      and "line_body line = Inr (out, True)"
      and "0x0A \<notin> set line"
  shows "deno_stream ((line @ js ''\<newline>'' @ rest) # chunks) = (out, Closed)"
  using assms startsWith_data_trim [OF assms(1)] by (simp add: split_nl_line)

lemma line_body_finish_reason:
  assumes "JSON_parse (drop 6 line) = Inr data"
      and "data \<noteq> JStr (js ''[DONE]'')"
      and "normalize data = Inr d"
      and "truthy (opt_prop (choices0 d) (js ''finish_reason''))"
  shows "line_body line = Inr ([event d, DONE], True)"
  using assms by (simp add: line_body_def)

subsection \<open>Malformed lines and split lines\<close>

text \<open>
  Claim C4 (a malformed JSON line between two valid lines is skipped: two events, one
  \<^verbatim>\<open>[DONE]\<close>, no error). \<^verbatim>\<open>main.ts\<close> has no handler around one line: the exception of
  \<^verbatim>\<open>JSON.parse\<close> reaches the handler around the whole loop, which calls
  \<^verbatim>\<open>controller.error\<close>. The second valid line is never read and no \<^verbatim>\<open>[DONE]\<close> is sent.
\<close>

theorem deno_aborts_on_malformed_line:
  \<open>deno_stream
     [js ''data: {"choices":[{"delta":{"content":"a"}}]}\<newline>data: {"choices":\<newline>data: {"choices":[{"delta":{"content":"b"}}]}\<newline>'']
   = ([js ''data: {"choices":[{"delta":{"content":"a"}}]}\<newline>\<newline>''], Errored SyntaxError)\<close>
  by code_simp

text \<open>
  \<^verbatim>\<open>worker.js\<close> does what C4 says, however the three lines are cut into chunks: \<open>l1\<close>
  and \<open>l3\<close> are lines whose body enqueues one event and goes on, \<open>l2\<close> is a line whose
  payload does not parse.
\<close>

lemma worker_skips_malformed_line:
  assumes "startsWith l1 (js ''data: '')" and "line_body l1 = Inr ([e1], False)"
      and "startsWith l2 (js ''data: '')" and "JSON_parse (drop 6 l2) = Inl SyntaxError"
      and "startsWith l3 (js ''data: '')" and "line_body l3 = Inr ([e3], False)"
      and "0x0A \<notin> set (l1 @ l2 @ l3)"
      and "concat chunks = l1 @ js ''\<newline>'' @ l2 @ js ''\<newline>'' @ l3 @ js ''\<newline>''"
  shows "worker_stream chunks = [e1, e3, DONE]"
proof -
  have sp: "split_nl (concat chunks) = [l1, l2, l3, []]"
    using assms(7,8) by (simp add: split_nl_line)
  have b2: "line_body l2 = Inl SyntaxError"
    using assms(4) by (simp add: line_body_def)
  have nr: "\<forall>line \<in> set (butlast (split_nl ([] @ concat chunks))). \<not> returns line"
    using sp assms(2,6) b2 by (simp add: returns_def)
  have "worker_stream chunks = pipe [] [concat chunks]"
    using pipe_concat [OF _ nr] by (simp add: worker_stream_def)
  also have "\<dots> = process_lines [l1, l2, l3] @ flush []"
    using sp by (simp add: transform_def del: process_lines.simps)
  also have "\<dots> = [e1, e3, DONE]"
  proof -
    have f: "flush [] = [DONE]"
      by (simp add: flush_def trim_def)
    have "process_lines [l3] = [e3]"
      using assms(5,6) startsWith_data_trim [OF assms(5)] by simp
    then have "process_lines [l2, l3] = [e3]"
      using assms(3) b2 startsWith_data_trim [OF assms(3)] by simp
    then have "process_lines [l1, l2, l3] = [e1, e3]"
      using assms(1,2) startsWith_data_trim [OF assms(1)] by simp
    then show ?thesis
      using f by simp
  qed
  finally show ?thesis .
qed

lemma worker_skips_malformed_line_example:
  \<open>worker_stream
     [js ''data: {"choices":[{"delta":{"content":"a"}}]}\<newline>data: {"choices":\<newline>data: {"choices":[{"delta":{"content":"b"}}]}\<newline>'']
   = [js ''data: {"choices":[{"delta":{"content":"a"}}]}\<newline>\<newline>'',
      js ''data: {"choices":[{"delta":{"content":"b"}}]}\<newline>\<newline>'', DONE]\<close>
  by code_simp

text \<open>
  Claim C5 (a line split across two chunks is reassembled through the carry-over buffer
  and processed as one event). \<^verbatim>\<open>main.ts\<close> has no buffer: it splits each chunk on its
  own, so the first half of the line is parsed as if it were a whole line, the parse
  throws and the stream ends in the error state. (\<^verbatim>\<open>worker.js\<close> keeps the claim: see
  \<open>worker_split_line\<close>, \<open>pipe_split_line\<close> and \<open>worker_split_line_one_event\<close> above.)
\<close>

theorem deno_split_line_aborts:
  \<open>deno_stream [js ''data: {"cho'', js ''ices":[{"delta":{"content":"a"}}]}\<newline>'']
   = ([], Errored SyntaxError)\<close>
  by code_simp

lemma worker_split_line_example:
  \<open>worker_stream [js ''data: {"cho'', js ''ices":[{"delta":{"content":"a"}}]}\<newline>'']
   = [js ''data: {"choices":[{"delta":{"content":"a"}}]}\<newline>\<newline>'', DONE]\<close>
  by code_simp

subsection \<open>Field normalization\<close>

lemma map_of_obj_insert:
  "map_of ps k = None \<Longrightarrow> map_of (obj_insert k v ps) = (map_of ps)(k \<mapsto> v)"
  by (induction ps) (auto simp: fun_upd_twist split: if_splits)

lemma map_of_replace:
  "map_of (map (\<lambda>p. if fst p = k then (k, v) else p) ps) k' =
     (if k' = k \<and> map_of ps k \<noteq> None then Some v else map_of ps k')"
  by (induction ps) auto

lemma map_of_obj_set: "map_of (obj_set k v ps) = (map_of ps)(k \<mapsto> v)"
  using map_of_obj_insert [of ps k v]
  by (cases "map_of ps k") (auto simp: obj_set_def map_of_replace)

lemma map_of_obj_delete: "map_of (obj_delete k ps) = (map_of ps)(k := None)"
  by (induction ps) (auto simp: obj_delete_def)

lemma array_index_choices: "array_index (js ''choices'') = None"
  by (simp add: array_index_def is_digit_def)

lemma array_index_delta: "array_index (js ''delta'') = None"
  by (simp add: array_index_def is_digit_def)

lemma array_index_content: "array_index (js ''content'') = None"
  by (simp add: array_index_def is_digit_def)

lemma array_index_0: "array_index (js ''0'') = Some 0"
  by (simp add: array_index_def is_digit_def dec_def)

lemmas array_index_keys =
  array_index_choices [simplified] array_index_delta [simplified]
  array_index_content [simplified] array_index_0 [simplified]

text \<open>The values in which \<^verbatim>\<open>data.choices?.[0]\<close> is defined and not \<^verbatim>\<open>null\<close>.\<close>

lemma choices0_cases:
  assumes "choices0 data = Some e"
  shows "\<exists>dps. data = JObj dps \<and>
           ((\<exists>vs. map_of dps (js ''choices'') = Some (JArr (e # vs)))
            \<or> (\<exists>cps. map_of dps (js ''choices'') = Some (JObj cps) \<and> map_of cps (js ''0'') = Some e)
            \<or> (\<exists>c s. map_of dps (js ''choices'') = Some (JStr (c # s)) \<and> e = JStr [c]))"
proof (cases data)
  case (JObj dps)
  show ?thesis
  proof (cases "map_of dps (js ''choices'')")
    case None
    with assms JObj show ?thesis by (simp add: choices0_def)
  next
    case (Some c)
    with assms JObj show ?thesis
      by (cases c) (auto simp: choices0_def array_index_keys neq_Nil_conv split: if_splits)
  qed
qed (use assms in \<open>simp_all add: choices0_def array_index_keys\<close>)

lemma choices0_put:
  assumes "choices0 data = Some (JObj ps)"
  shows "choices0 (put_choices0 data e) = Some e"
  using choices0_cases [OF assms]
  by (auto simp: put_choices0_def choices0_def map_of_obj_set array_index_keys split: json.splits)

lemma get_prop_put_choices0:
  "k \<noteq> js ''choices'' \<Longrightarrow> get_prop (put_choices0 data e) k = get_prop data k"
  by (auto simp: put_choices0_def map_of_obj_set split: json.splits option.splits)

lemma ensure_delta_object:
  assumes "choices0 data = Some (JObj ps)"
  shows "ensure_delta data =
           Inr (if map_of ps (js ''delta'') = None
                then put_choices0 data (JObj (obj_set (js ''delta'') (JObj []) ps)) else data)"
  using choices0_cases [OF assms] assms
  by (auto simp: ensure_delta_def choices0_def array_index_keys split: option.splits json.splits)

lemma text_to_content_object:
  assumes "choices0 data = Some (JObj ps)" and "map_of ps (js ''delta'') = Some (JObj dps)"
  shows "text_to_content data =
           Inr (if map_of dps (js ''content'') = None \<and> truthy (map_of ps (js ''text''))
                then put_choices0 data
                       (JObj (obj_delete (js ''text'')
                          (obj_set (js ''delta'')
                             (JObj (obj_set (js ''content'') (the (map_of ps (js ''text''))) dps)) ps)))
                else data)"
  using assms by (auto simp: text_to_content_def split: option.splits)

text \<open>
  A \<^verbatim>\<open>delta\<close> that is an array has no \<^verbatim>\<open>content\<close>: a truthy text is assigned to a
  property of the array that is not printed, and the \<^verbatim>\<open>text\<close> key is deleted.
\<close>

lemma text_to_content_array:
  assumes "choices0 data = Some (JObj ps)" and "map_of ps (js ''delta'') = Some (JArr vs)"
  shows "text_to_content data =
           Inr (if truthy (map_of ps (js ''text''))
                then put_choices0 data
                       (JObj (obj_delete (js ''text'') (obj_set (js ''delta'') (JArr vs) ps)))
                else data)"
  using assms by (auto simp: text_to_content_def array_index_keys split: option.splits)

text \<open>
  A \<^verbatim>\<open>delta\<close> that is \<^verbatim>\<open>null\<close> or a primitive value has no \<^verbatim>\<open>content\<close> either, and the
  assignment of a truthy text to it throws.
\<close>

lemma text_to_content_primitive:
  assumes "choices0 data = Some (JObj ps)" and "map_of ps (js ''delta'') = Some d"
      and "case d of JObj dps \<Rightarrow> False | JArr vs \<Rightarrow> False | _ \<Rightarrow> True"
  shows "text_to_content data =
           (if truthy (map_of ps (js ''text'')) then Inl TypeError else Inr data)"
  using assms
  by (cases d) (auto simp: text_to_content_def array_index_keys split: option.splits)

text \<open>
  Claim C9 (if \<^verbatim>\<open>choices[0].delta\<close> is absent it is created as an empty object; if
  \<^verbatim>\<open>delta.content\<close> is absent and \<^verbatim>\<open>choices[0].text\<close> is present, the text is moved into
  \<^verbatim>\<open>delta.content\<close> and the \<^verbatim>\<open>text\<close> key removed). As stated the claim fails: the code
  moves the text only when it is truthy, so a chunk whose legacy text is the empty string
  keeps its \<^verbatim>\<open>text\<close> key and gets an empty \<^verbatim>\<open>delta\<close>.
\<close>

theorem empty_text_not_moved:
  \<open>process_lines [js ''data: {"choices":[{"text":""}]}'']
     = [js ''data: {"choices":[{"text":"","delta":{}}]}\<newline>\<newline>'']\<close>
  by code_simp

text \<open>
  Nor is the text moved when \<^verbatim>\<open>delta\<close> is there and is not an object. In an array the
  \<^verbatim>\<open>content\<close> is absent, the text is assigned to a property that is not printed and the
  \<^verbatim>\<open>text\<close> key is deleted: the text is lost. On \<^verbatim>\<open>null\<close>, a number, a string or a
  boolean the assignment throws: \<^verbatim>\<open>worker.js\<close> drops the line, \<^verbatim>\<open>main.ts\<close> ends the
  stream in the error state. A number is tested as the double it denotes: \<^verbatim>\<open>1e-400\<close>
  is zero and falsy.
\<close>

lemma text_lost_in_array_delta:
  \<open>process_lines [js ''data: {"choices":[{"delta":[],"text":"hi"}]}'']
     = [js ''data: {"choices":[{"delta":[]}]}\<newline>\<newline>'']\<close>
  by code_simp

lemma text_with_null_delta_throws:
  \<open>line_body (js ''data: {"choices":[{"delta":null,"text":"hi"}]}'') = Inl TypeError
   \<and> line_body (js ''data: {"choices":[{"delta":5,"text":"hi"}]}'') = Inl TypeError
   \<and> line_body (js ''data: {"choices":[{"delta":"s","text":"hi"}]}'') = Inl TypeError
   \<and> line_body (js ''data: {"choices":[{"delta":false,"text":"hi"}]}'') = Inl TypeError
   \<and> process_lines [js ''data: {"choices":[{"delta":null,"text":"hi"}]}''] = []
   \<and> deno_stream [js ''data: {"choices":[{"delta":null,"text":"hi"}]}\<newline>'']
       = ([], Errored TypeError)\<close>
  by code_simp

lemma zero_text_not_moved:
  \<open>process_lines [js ''data: {"choices":[{"text":1e-400}]}'']
     = [js ''data: {"choices":[{"text":0,"delta":{}}]}\<newline>\<newline>'']
   \<and> process_lines [js ''data: {"choices":[{"text":0.5e1}]}'']
     = [js ''data: {"choices":[{"delta":{"content":5}}]}\<newline>\<newline>'']\<close>
  by code_simp

text \<open>
  Claim C9 as amended. Let \<^verbatim>\<open>choices[0]\<close> be an object with the properties \<open>ps\<close>.

  \<^item> Its \<^verbatim>\<open>delta\<close> is absent (then \<open>dps\<close> is empty) or an object with the properties
    \<open>dps\<close>: normalization succeeds, changes nothing outside \<^verbatim>\<open>choices\<close>, and leaves a
    \<^verbatim>\<open>choices[0]\<close> whose \<^verbatim>\<open>delta\<close> is an object. If \<^verbatim>\<open>delta.content\<close> was absent and
    \<^verbatim>\<open>text\<close> was present with a truthy value, \<^verbatim>\<open>delta\<close> has gained \<^verbatim>\<open>content\<close> with that
    value and \<^verbatim>\<open>text\<close> is gone; otherwise \<^verbatim>\<open>delta\<close> has the properties it had (none
    when it was created) and the other properties of \<^verbatim>\<open>choices[0]\<close> are as they were.
  \<^item> Its \<^verbatim>\<open>delta\<close> is an array: normalization succeeds and changes nothing outside
    \<^verbatim>\<open>choices\<close>; a truthy \<^verbatim>\<open>text\<close> is removed and nothing else changes, and with
    any other \<^verbatim>\<open>text\<close> the payload is as it was.
  \<^item> Its \<^verbatim>\<open>delta\<close> is \<^verbatim>\<open>null\<close>, a boolean, a number or a string: with a truthy
    \<^verbatim>\<open>text\<close> the normalization throws a \<^verbatim>\<open>TypeError\<close>, and with any other \<^verbatim>\<open>text\<close>
    the payload is as it was.
\<close>

theorem normalize_object:
  assumes "choices0 data = Some (JObj ps)"
  shows "(map_of ps (js ''delta'') = None \<and> dps = [] \<or> map_of ps (js ''delta'') = Some (JObj dps)
            \<longrightarrow>
          (\<exists>data' ps' dps'.
             normalize data = Inr data'
           \<and> (\<forall>k. k \<noteq> js ''choices'' \<longrightarrow> get_prop data' k = get_prop data k)
           \<and> choices0 data' = Some (JObj ps')
           \<and> map_of ps' (js ''delta'') = Some (JObj dps')
           \<and> (if map_of dps (js ''content'') = None \<and> truthy (map_of ps (js ''text''))
              then map_of dps' = (map_of dps)(js ''content'' := map_of ps (js ''text''))
                 \<and> map_of ps' = (map_of ps)(js ''delta'' \<mapsto> JObj dps', js ''text'' := None)
              else dps' = dps \<and> map_of ps' = (map_of ps)(js ''delta'' \<mapsto> JObj dps))))
       \<and> (map_of ps (js ''delta'') = Some (JArr vs) \<longrightarrow>
          (\<exists>data' ps'.
             normalize data = Inr data'
           \<and> (\<forall>k. k \<noteq> js ''choices'' \<longrightarrow> get_prop data' k = get_prop data k)
           \<and> choices0 data' = Some (JObj ps')
           \<and> (if truthy (map_of ps (js ''text''))
              then map_of ps' = (map_of ps)(js ''text'' := None)
              else data' = data)))
       \<and> (map_of ps (js ''delta'') = Some d
            \<and> (case d of JObj dps \<Rightarrow> False | JArr vs \<Rightarrow> False | _ \<Rightarrow> True) \<longrightarrow>
          normalize data = (if truthy (map_of ps (js ''text'')) then Inl TypeError else Inr data))"
proof (intro conjI impI)
  assume a2: "map_of ps (js ''delta'') = None \<and> dps = []
              \<or> map_of ps (js ''delta'') = Some (JObj dps)"
  define ps1 where
    "ps1 = (if map_of ps (js ''delta'') = None then obj_set (js ''delta'') (JObj []) ps else ps)"
  define data1 where
    "data1 = (if map_of ps (js ''delta'') = None then put_choices0 data (JObj ps1) else data)"
  have e: "ensure_delta data = Inr data1"
    using ensure_delta_object [OF assms] by (simp add: data1_def ps1_def)
  have c1: "choices0 data1 = Some (JObj ps1)"
    using assms choices0_put [OF assms] by (simp add: data1_def ps1_def)
  have d1: "map_of ps1 (js ''delta'') = Some (JObj dps)"
    using a2 by (auto simp: ps1_def map_of_obj_set)
  have m1: "map_of ps1 = (map_of ps)(js ''delta'' \<mapsto> JObj dps)"
    using a2 by (auto simp: ps1_def map_of_obj_set)
  have t1: "map_of ps1 (js ''text'') = map_of ps (js ''text'')"
    by (simp add: m1)
  have g1: "\<forall>k. k \<noteq> js ''choices'' \<longrightarrow> get_prop data1 k = get_prop data k"
    by (simp add: data1_def get_prop_put_choices0)
  show "\<exists>data' ps' dps'.
             normalize data = Inr data'
           \<and> (\<forall>k. k \<noteq> js ''choices'' \<longrightarrow> get_prop data' k = get_prop data k)
           \<and> choices0 data' = Some (JObj ps')
           \<and> map_of ps' (js ''delta'') = Some (JObj dps')
           \<and> (if map_of dps (js ''content'') = None \<and> truthy (map_of ps (js ''text''))
              then map_of dps' = (map_of dps)(js ''content'' := map_of ps (js ''text''))
                 \<and> map_of ps' = (map_of ps)(js ''delta'' \<mapsto> JObj dps', js ''text'' := None)
              else dps' = dps \<and> map_of ps' = (map_of ps)(js ''delta'' \<mapsto> JObj dps))"
  proof (cases "map_of dps (js ''content'') = None \<and> truthy (map_of ps (js ''text''))")
    case True
    then obtain t where t: "map_of ps (js ''text'') = Some t"
      by (cases "map_of ps (js ''text'')") auto
    let ?dps' = "obj_set (js ''content'') t dps"
    let ?ps' = "obj_delete (js ''text'') (obj_set (js ''delta'') (JObj ?dps') ps1)"
    have "normalize data = Inr (put_choices0 data1 (JObj ?ps'))"
      using e text_to_content_object [OF c1 d1] True t t1 by (simp add: normalize_def)
    moreover have "choices0 (put_choices0 data1 (JObj ?ps')) = Some (JObj ?ps')"
      using choices0_put [OF c1] .
    moreover have "map_of ?ps' (js ''delta'') = Some (JObj ?dps')"
      by (simp add: map_of_obj_delete map_of_obj_set)
    moreover have "map_of ?dps' = (map_of dps)(js ''content'' := map_of ps (js ''text''))"
      using t by (simp add: map_of_obj_set)
    moreover have "map_of ?ps' = (map_of ps)(js ''delta'' \<mapsto> JObj ?dps', js ''text'' := None)"
      by (simp add: map_of_obj_delete map_of_obj_set m1)
    moreover have
      "\<forall>k. k \<noteq> js ''choices'' \<longrightarrow> get_prop (put_choices0 data1 (JObj ?ps')) k = get_prop data k"
      using g1 by (simp add: get_prop_put_choices0)
    ultimately show ?thesis
      using True by auto
  next
    case False
    have "normalize data = Inr data1"
      using e text_to_content_object [OF c1 d1] False t1 by (auto simp: normalize_def)
    then show ?thesis
      using False c1 d1 m1 g1 by auto
  qed
next
  assume a: "map_of ps (js ''delta'') = Some (JArr vs)"
  have e: "ensure_delta data = Inr data"
    using ensure_delta_object [OF assms] a by simp
  let ?ps' = "obj_delete (js ''text'') (obj_set (js ''delta'') (JArr vs) ps)"
  have n: "normalize data =
             Inr (if truthy (map_of ps (js ''text'')) then put_choices0 data (JObj ?ps') else data)"
    using e text_to_content_array [OF assms a] by (simp add: normalize_def)
  have m: "map_of ?ps' = (map_of ps)(js ''text'' := None)"
    using a by (auto simp: map_of_obj_delete map_of_obj_set)
  show "\<exists>data' ps'.
             normalize data = Inr data'
           \<and> (\<forall>k. k \<noteq> js ''choices'' \<longrightarrow> get_prop data' k = get_prop data k)
           \<and> choices0 data' = Some (JObj ps')
           \<and> (if truthy (map_of ps (js ''text''))
              then map_of ps' = (map_of ps)(js ''text'' := None)
              else data' = data)"
  proof (cases "truthy (map_of ps (js ''text''))")
    case True
    then show ?thesis
      using n m choices0_put [OF assms, of "JObj ?ps'"] by (simp add: get_prop_put_choices0)
  next
    case False
    then show ?thesis
      using n assms by simp
  qed
next
  assume a: "map_of ps (js ''delta'') = Some d
             \<and> (case d of JObj dps \<Rightarrow> False | JArr vs \<Rightarrow> False | _ \<Rightarrow> True)"
  have e: "ensure_delta data = Inr data"
    using ensure_delta_object [OF assms] a by simp
  show "normalize data = (if truthy (map_of ps (js ''text'')) then Inl TypeError else Inr data)"
    using e text_to_content_primitive [OF assms, of d] a by (simp add: normalize_def)
qed

text \<open>
  The witness of C9 as amended is the example of the spec: \<^verbatim>\<open>{"choices":[{"text":"hi"}]}\<close>.
\<close>

theorem normalize_object_witness:
  "choices0 (JObj [(js ''choices'', JArr [JObj [(js ''text'', JStr (js ''hi''))]])])
     = Some (JObj [(js ''text'', JStr (js ''hi''))])
   \<and> (\<exists>data' ps' dps'.
         normalize (JObj [(js ''choices'', JArr [JObj [(js ''text'', JStr (js ''hi''))]])]) = Inr data'
       \<and> choices0 data' = Some (JObj ps')
       \<and> map_of ps' (js ''delta'') = Some (JObj dps')
       \<and> map_of dps' (js ''content'') = Some (JStr (js ''hi''))
       \<and> map_of ps' (js ''text'') = None)"
proof -
  let ?ex = "JObj [(js ''choices'', JArr [JObj [(js ''text'', JStr (js ''hi''))]])]"
  have c: "choices0 ?ex = Some (JObj [(js ''text'', JStr (js ''hi''))])"
    by (simp add: choices0_def array_index_keys)
  from normalize_object [OF c, of "[]"] obtain data' ps' dps' where
    "normalize ?ex = Inr data'" "choices0 data' = Some (JObj ps')"
    "map_of ps' (js ''delta'') = Some (JObj dps')"
    "map_of dps' = (map_of [])(js ''content'' := map_of [(js ''text'', JStr (js ''hi''))] (js ''text''))"
    "map_of ps' = (map_of [(js ''text'', JStr (js ''hi''))])(js ''delta'' \<mapsto> JObj dps', js ''text'' := None)"
    by auto
  then show ?thesis
    using c by auto
qed

text \<open>The example of the spec, from the text received to the text sent.\<close>

lemma normalize_example:
  \<open>JSON_parse (js ''{"choices":[{"text":"hi"}]}'')
     = Inr (JObj [(js ''choices'', JArr [JObj [(js ''text'', JStr (js ''hi''))]])])
   \<and> normalize (JObj [(js ''choices'', JArr [JObj [(js ''text'', JStr (js ''hi''))]])])
       = Inr (JObj [(js ''choices'', JArr [JObj [(js ''delta'', JObj [(js ''content'', JStr (js ''hi''))])]])])
   \<and> JSON_stringify (JObj [(js ''choices'', JArr [JObj [(js ''delta'', JObj [(js ''content'', JStr (js ''hi''))])]])])
       = js ''{"choices":[{"delta":{"content":"hi"}}]}''\<close>
  by code_simp

subsection \<open>Payloads without \<^verbatim>\<open>choices[0]\<close>\<close>

text \<open>
  Claim C10 (in \<^verbatim>\<open>worker.js\<close> a line whose payload is valid JSON with no \<^verbatim>\<open>choices\<close>
  array of at least one element emits nothing and is dropped). As stated the claim
  fails: \<^verbatim>\<open>choices[0]\<close> is also found in a \<^verbatim>\<open>choices\<close> that is an object with the key
  \<^verbatim>\<open>0\<close>, and such a payload is normalized and emitted.
\<close>

theorem choices_object_emits_event:
  \<open>JSON_parse (drop 6 (js ''data: {"choices":{"0":{}}}''))
     = Inr (JObj [(js ''choices'', JObj [(js ''0'', JObj [])])])
   \<and> process_lines [js ''data: {"choices":{"0":{}}}'']
     = [js ''data: {"choices":{"0":{"delta":{}}}}\<newline>\<newline>'']\<close>
  by code_simp

text \<open>
  Claim C10 as amended. A complete line (no line feed in it) that starts with
  \<^verbatim>\<open>data: \<close>, whose payload parses to a value other than the sentinel string in which
  \<^verbatim>\<open>choices\<close> is neither an array with a first element nor an object with the key \<^verbatim>\<open>0\<close>:
  the normalization throws a \<^verbatim>\<open>TypeError\<close>, the loop of \<^verbatim>\<open>worker.js\<close> catches it, enqueues
  nothing for the line and goes on with the lines after it.
\<close>

theorem no_choices0_dropped:
  assumes "startsWith line (js ''data: '')"
      and "JSON_parse (drop 6 line) = Inr data"
      and "data \<noteq> JStr (js ''[DONE]'')"
      and "\<forall>v vs. get_prop data (js ''choices'') \<noteq> Some (JArr (v # vs))"
      and "\<forall>cps. get_prop data (js ''choices'') = Some (JObj cps) \<longrightarrow> map_of cps (js ''0'') = None"
      and "0x0A \<notin> set line"
  shows "line_body line = Inl TypeError
       \<and> process_lines (line # lines) = process_lines lines
       \<and> worker_stream ((line @ js ''\<newline>'' @ rest) # chunks)
           = worker_stream ((js ''\<newline>'' @ rest) # chunks)"
proof -
  have n: "normalize data = Inl TypeError"
  proof (cases "data = JNull")
    case True
    then show ?thesis by (simp add: normalize_def ensure_delta_def)
  next
    case False
    show ?thesis
    proof (cases "get_prop data (js ''choices'')")
      case None
      with False show ?thesis by (simp add: normalize_def ensure_delta_def choices0_def)
    next
      case (Some c)
      with False assms(4,5) show ?thesis
        by (cases c)
           (auto simp: normalize_def ensure_delta_def choices0_def array_index_keys
                 neq_Nil_conv split: if_splits list.splits)
    qed
  qed
  have b: "line_body line = Inl TypeError"
    using assms(2,3) n by (simp add: line_body_def)
  have p: "process_lines (line # lines) = process_lines lines" for lines
    using b assms(1) by simp
  have "transform [] (line @ js ''\<newline>'' @ rest) = transform [] (js ''\<newline>'' @ rest)"
    using assms(6) split_nl_not_Nil [of rest]
    by (simp add: transform_def split_nl_line p process_lines_blank del: process_lines.simps)
  then show ?thesis
    using b p by (simp add: worker_stream_def)
qed

theorem no_choices0_dropped_witness:
  \<open>startsWith (js ''data: {}'') (js ''data: '')
   \<and> JSON_parse (drop 6 (js ''data: {}'')) = Inr (JObj [])
   \<and> line_body (js ''data: {}'') = Inl TypeError
   \<and> process_lines [js ''data: {}'', js ''data: {"choices":[{}]}'']
       = process_lines [js ''data: {"choices":[{}]}'']\<close>
proof -
  have s: "startsWith (js ''data: {}'') (js ''data: '')"
    by (simp add: startsWith_def)
  have p: "JSON_parse (drop 6 (js ''data: {}'')) = Inr (JObj [])"
    by code_simp
  show ?thesis
    using no_choices0_dropped [OF s p, of "[js ''data: {'' @ [0x22] @ js ''choices'' @ [0x22] @ js '':[{}]}'']"] s p
    by simp
qed

text \<open>
  The keys are compared as sequences of 16-bit code units: the escape \<^verbatim>\<open>\u0163\<close> is the
  one code unit 355 and not the letter \<^verbatim>\<open>c\<close>. The first payload has a \<^verbatim>\<open>choices\<close> array
  and is emitted, with the other key printed as that code unit; the second has none and
  is dropped.
\<close>

lemma escaped_key_is_another_key:
  \<open>process_lines [js ''data: {"choices":[{}],"'' @ [0x5C] @ js ''u0163hoices":5}'']
     = [js ''data: {"choices":[{"delta":{}}],"'' @ [355] @ js ''hoices":5}\<newline>\<newline>'']
   \<and> process_lines [js ''data: {"'' @ [0x5C] @ js ''u0163hoices":[{}]}''] = []
   \<and> process_lines [js ''data: {"'' @ [0x5C] @ js ''u0063hoices":[{}]}'']
     = [js ''data: {"choices":[{"delta":{}}]}\<newline>\<newline>'']\<close>
  by code_simp

text \<open>
  A number is printed as \<^verbatim>\<open>JSON.stringify\<close> prints the double it denotes, whatever
  the literal was.
\<close>

lemma numbers_are_printed_canonically:
  \<open>process_lines
     [js ''data: {"choices":[{"delta":{},"index":0.0}],"created":1.0,"t":-0.50,"n":12345678901234567890,"big":1e400,"e":1E21,"s":1e-7,"q":100e-2,"z":-0}'']
   = [js ''data: {"choices":[{"delta":{},"index":0}],"created":1,"t":-0.5,"n":12345678901234567000,"big":null,"e":1e+21,"s":1e-7,"q":1,"z":0}\<newline>\<newline>'']\<close>
  by code_simp

section \<open>Properties of the token lifecycle manager\<close>

text \<open>
  The message of a refresh that was refused contains the phrase the handler of
  \<^verbatim>\<open>getValidToken\<close> looks for; the message of a registration that was refused contains it
  exactly when the status text of the response does.
\<close>

lemma refresh_message_includes:
  "str_includes (''Failed to refresh token: '' @ st) ''Failed to refresh token''"
  by (simp add: startsWith_def)

lemma register_message_includes:
  "str_includes (''Failed to register user: '' @ st) ''Failed to refresh token''
     = str_includes st ''Failed to refresh token''"
  by (simp add: startsWith_def)

lemmas message_includes =
  refresh_message_includes [unfolded append.simps]
  register_message_includes [unfolded append.simps]

lemmas getValidToken_defs =
  getValidToken_def KV_get_def try_block_def refreshToken_fn_def registerUser_def
  fetch_def store_and_return_def KV_put_def

text \<open>
  Claim C6 (with a cached record inside the renewal margin: exactly one refresh call; if
  that refresh call fails, exactly one registration call follows and the store holds its
  record; if the registration fails too, the failure is surfaced). As stated the claim
  fails: the handler of \<^verbatim>\<open>getValidToken\<close> registers only when the message of the error
  contains \<^verbatim>\<open>Failed to refresh token\<close>, the message \<^verbatim>\<open>refreshToken\<close> gives to a response
  that is not \<^verbatim>\<open>ok\<close>. A refresh call that fails because \<^verbatim>\<open>fetch\<close> rejects has another
  message: its error goes to the caller, and no registration call is made.
\<close>

theorem refresh_rejected_no_registration:
  "getValidToken ''k'' w_down =
     (Inl (Error ''fetch failed''),
      w_down\<lparr>now := 800100, fetched := 1, trace := [Get ''k'', Refresh ''k'' ''r0'']\<rparr>)"
  by (simp add: w_down_def w_stale_def ti_old_def getValidToken_defs startsWith_def)

text \<open>
  Claim C6 as amended. Let the store hold the record \<open>ti\<close> with
  \<open>expiresAt ti - now \<le> 300000\<close>, and let \<open>r1\<close> and \<open>r2\<close> be the answers of the identity
  provider to the next two calls. The call reads the store once and makes exactly one
  refresh call, with the refresh token of \<open>ti\<close>.

  \<^item> If the refresh is refused (a response that is not \<^verbatim>\<open>ok\<close>), or fails with an error
    whose message contains \<^verbatim>\<open>Failed to refresh token\<close>, exactly one registration call
    follows: when it succeeds its record is written to the store and its token returned;
    when it fails, its error is what the caller gets, after no further call, and the
    store is as it was.
  \<^item> If the refresh fails with any other error, that error is what the caller gets,
    after no further call, and the store is as it was.
  \<^item> If the refresh succeeds, its record is written to the store and its token returned,
    after no further call.
\<close>

theorem getValidToken_stale:
  assumes "KV w apiKey = Some ti"
      and "expiresAt ti - now w \<le> 300000"
      and "network w (fetched w) = (t1, r1)"
      and "network w (Suc (fetched w)) = (t2, r2)"
  shows "take 2 (drop (length (trace w)) (trace (snd (getValidToken apiKey w))))
           = [Get apiKey, Refresh apiKey (refreshToken ti)]
       \<and> (\<forall>k rt. Refresh k rt
             \<notin> set (drop (length (trace w) + 2) (trace (snd (getValidToken apiKey w)))))
       \<and> ((\<exists>st. r1 = Status st)
            \<or> (\<exists>m. r1 = Failure m \<and> str_includes m ''Failed to refresh token'') \<longrightarrow>
            (case r2 of
               Ok idToken rt expiresIn \<Rightarrow>
                 getValidToken apiKey w =
                   (Inr idToken,
                    w\<lparr>KV := (KV w)(apiKey \<mapsto>
                            \<lparr>token = idToken, refreshToken = rt,
                             expiresAt = t2 + expiresIn * 1000\<rparr>),
                      now := t2, fetched := fetched w + 2,
                      trace := trace w @
                        [Get apiKey, Refresh apiKey (refreshToken ti), Register apiKey,
                         Put apiKey \<lparr>token = idToken, refreshToken = rt,
                                     expiresAt = t2 + expiresIn * 1000\<rparr>]\<rparr>)
             | Status st2 \<Rightarrow>
                 getValidToken apiKey w =
                   (Inl (Error (''Failed to register user: '' @ st2)),
                    w\<lparr>now := t2, fetched := fetched w + 2,
                      trace := trace w @
                        [Get apiKey, Refresh apiKey (refreshToken ti), Register apiKey]\<rparr>)
             | Failure m2 \<Rightarrow>
                 getValidToken apiKey w =
                   (Inl (Error m2),
                    w\<lparr>now := t2, fetched := fetched w + 2,
                      trace := trace w @
                        [Get apiKey, Refresh apiKey (refreshToken ti), Register apiKey]\<rparr>)))
       \<and> (\<forall>m. r1 = Failure m \<and> \<not> str_includes m ''Failed to refresh token'' \<longrightarrow>
            getValidToken apiKey w =
              (Inl (Error m),
               w\<lparr>now := t1, fetched := fetched w + 1,
                 trace := trace w @ [Get apiKey, Refresh apiKey (refreshToken ti)]\<rparr>))
       \<and> (\<forall>id_token rt expires_in. r1 = Ok id_token rt expires_in \<longrightarrow>
            getValidToken apiKey w =
              (Inr id_token,
               w\<lparr>KV := (KV w)(apiKey \<mapsto>
                       \<lparr>token = id_token, refreshToken = rt,
                        expiresAt = t1 + expires_in * 1000\<rparr>),
                 now := t1, fetched := fetched w + 1,
                 trace := trace w @
                   [Get apiKey, Refresh apiKey (refreshToken ti),
                    Put apiKey \<lparr>token = id_token, refreshToken = rt,
                                expiresAt = t1 + expires_in * 1000\<rparr>]\<rparr>))"
  using assms
  by (auto simp: getValidToken_defs message_includes simp del: str_includes.simps
           split: response.splits)

theorem getValidToken_stale_witness:
  "KV w_stale ''k'' = Some ti_old \<and> expiresAt ti_old - now w_stale \<le> 300000
   \<and> fst (getValidToken ''k'' w_stale) = Inr ''tok''
   \<and> KV (snd (getValidToken ''k'' w_stale)) ''k''
        = Some \<lparr>token = ''tok'', refreshToken = ''ref'', expiresAt = 4400200\<rparr>
   \<and> trace (snd (getValidToken ''k'' w_stale))
        = [Get ''k'', Refresh ''k'' ''r0'', Register ''k'',
           Put ''k'' \<lparr>token = ''tok'', refreshToken = ''ref'', expiresAt = 4400200\<rparr>]"
  using getValidToken_stale [of w_stale "''k''" ti_old 800100 "Status ''Bad Request''"
      800200 "Ok ''tok'' ''ref'' 3600"]
  by (simp add: w_stale_def ti_old_def)

text \<open>
  Claim C8. With a cached record \<open>ti\<close> and \<open>expiresAt ti - now > 300000\<close> the call
  returns the cached token and its only effect is the one read of the store: no call to
  the identity provider, no write. On every path a call reads the store exactly once and
  writes it at most once.
\<close>

theorem getValidToken_fresh:
  "(KV w apiKey = Some ti \<and> expiresAt ti - now w > 300000 \<longrightarrow>
      getValidToken apiKey w = (Inr (token ti), w\<lparr>trace := trace w @ [Get apiKey]\<rparr>))
   \<and> (\<exists>es. trace (snd (getValidToken apiKey w)) = trace w @ es
          \<and> length (filter is_Get es) = 1 \<and> length (filter is_Put es) \<le> 1)"
  by (auto simp: getValidToken_defs is_Get_def is_Put_def simp del: str_includes.simps
           split: response.splits option.splits prod.splits)

theorem getValidToken_fresh_witness:
  "KV w_fresh ''k'' = Some ti_old \<and> expiresAt ti_old - now w_fresh > 300000
   \<and> getValidToken ''k'' w_fresh = (Inr ''old'', w_fresh\<lparr>trace := [Get ''k'']\<rparr>)"
  using getValidToken_fresh [of w_fresh "''k''" ti_old]
  by (simp add: w_fresh_def w_stale_def ti_old_def)

text \<open>
  Claim C7 (the registration fallback is triggered if and only if the error is a
  refresh-specific failure; a registration failure is always fatal). As stated the claim
  fails: the handler decides by the text of the message, and the message of a refused
  registration carries the status text of the response. With no cached record and a
  registration refused with the status text \<^verbatim>\<open>Failed to refresh token\<close>, the handler
  registers a second time.
\<close>

theorem registration_failure_falls_back:
  "getValidToken ''k'' w_new =
     (Inr ''tok'',
      w_new\<lparr>KV := [''k'' \<mapsto> \<lparr>token = ''tok'', refreshToken = ''ref'', expiresAt = 4400200\<rparr>],
        now := 800200, fetched := 2,
        trace := [Get ''k'', Register ''k'', Register ''k'',
                  Put ''k'' \<lparr>token = ''tok'', refreshToken = ''ref'', expiresAt = 4400200\<rparr>]\<rparr>)"
  by (simp add: w_new_def getValidToken_defs startsWith_def)

text \<open>
  Claim C7 as amended. Let the call be on the renewal path (no cached record, or one
  inside the renewal margin), let \<open>call1\<close> be its first call to the identity provider (a
  registration when there is no record, a refresh otherwise), \<open>r1\<close> and \<open>r2\<close> the answers
  to the next two calls, and \<open>msg\<close> the message of the error the first call raises.

  \<^item> When the first call succeeds, its record is stored and its token returned: there
    is no fallback.
  \<^item> When it fails and \<open>msg\<close> contains \<^verbatim>\<open>Failed to refresh token\<close>, the second call is
    made, and it is a registration. If it succeeds, its record is stored and its token
    returned. If it fails, its error reaches the caller: there is never a third call.
  \<^item> When it fails and \<open>msg\<close> does not contain the phrase, the error reaches the
    caller unchanged after that one call.

  So the fallback is made if and only if the first call fails with a message that
  contains the phrase. The message of a refused refresh always does; the message of a
  refused registration does only if the status text of the response contains the phrase.
\<close>

theorem fallback_by_message:
  assumes "\<forall>ti. KV w apiKey = Some ti \<longrightarrow> expiresAt ti - now w \<le> 300000"
      and "network w (fetched w) = (t1, r1)"
      and "network w (Suc (fetched w)) = (t2, r2)"
      and "call1 = (case KV w apiKey of
                      None \<Rightarrow> Register apiKey
                    | Some ti \<Rightarrow> Refresh apiKey (refreshToken ti))"
      and "msg = (case r1 of
                    Status st \<Rightarrow>
                      (case KV w apiKey of
                         None \<Rightarrow> ''Failed to register user: ''
                       | Some ti \<Rightarrow> ''Failed to refresh token: '') @ st
                  | Failure m \<Rightarrow> m
                  | Ok idToken rt expiresIn \<Rightarrow> [])"
  shows "getValidToken apiKey w =
           (case r1 of
              Ok idToken rt expiresIn \<Rightarrow>
                (Inr idToken,
                 w\<lparr>KV := (KV w)(apiKey \<mapsto>
                         \<lparr>token = idToken, refreshToken = rt,
                          expiresAt = t1 + expiresIn * 1000\<rparr>),
                   now := t1, fetched := fetched w + 1,
                   trace := trace w @
                     [Get apiKey, call1,
                      Put apiKey \<lparr>token = idToken, refreshToken = rt,
                                  expiresAt = t1 + expiresIn * 1000\<rparr>]\<rparr>)
            | _ \<Rightarrow>
                if str_includes msg ''Failed to refresh token'' then
                  (case r2 of
                     Ok idToken rt expiresIn \<Rightarrow>
                       (Inr idToken,
                        w\<lparr>KV := (KV w)(apiKey \<mapsto>
                                \<lparr>token = idToken, refreshToken = rt,
                                 expiresAt = t2 + expiresIn * 1000\<rparr>),
                          now := t2, fetched := fetched w + 2,
                          trace := trace w @
                            [Get apiKey, call1, Register apiKey,
                             Put apiKey \<lparr>token = idToken, refreshToken = rt,
                                         expiresAt = t2 + expiresIn * 1000\<rparr>]\<rparr>)
                   | Status st2 \<Rightarrow>
                       (Inl (Error (''Failed to register user: '' @ st2)),
                        w\<lparr>now := t2, fetched := fetched w + 2,
                          trace := trace w @ [Get apiKey, call1, Register apiKey]\<rparr>)
                   | Failure m2 \<Rightarrow>
                       (Inl (Error m2),
                        w\<lparr>now := t2, fetched := fetched w + 2,
                          trace := trace w @ [Get apiKey, call1, Register apiKey]\<rparr>))
                else
                  (Inl (Error msg),
                   w\<lparr>now := t1, fetched := fetched w + 1,
                     trace := trace w @ [Get apiKey, call1]\<rparr>))
       \<and> (fetched (snd (getValidToken apiKey w)) = fetched w + 2
            \<longleftrightarrow> (\<forall>idToken rt expiresIn. r1 \<noteq> Ok idToken rt expiresIn)
                \<and> str_includes msg ''Failed to refresh token'')
       \<and> (\<forall>st. r1 = Status st \<longrightarrow>
            str_includes msg ''Failed to refresh token''
              = (KV w apiKey \<noteq> None \<or> str_includes st ''Failed to refresh token''))"
  using assms
  by (cases "KV w apiKey"; cases r1; cases r2)
     (auto simp: getValidToken_defs message_includes simp del: str_includes.simps)

theorem fallback_by_message_witness:
  "KV w_denied ''k'' = Some ti_old \<and> expiresAt ti_old - now w_denied \<le> 300000
   \<and> getValidToken ''k'' w_denied =
        (Inl (Error ''Failed to register user: Forbidden''),
         w_denied\<lparr>now := 800200, fetched := 2,
           trace := [Get ''k'', Refresh ''k'' ''r0'', Register ''k'']\<rparr>)"
proof -
  have h: "\<forall>ti. KV w_denied ''k'' = Some ti \<longrightarrow> expiresAt ti - now w_denied \<le> 300000"
    by (simp add: w_denied_def w_stale_def ti_old_def)
  have s: "str_includes ''Failed to refresh token: Bad Request'' ''Failed to refresh token''"
    by (simp add: startsWith_def)
  show ?thesis
    using fallback_by_message [OF h, of 800100 "Status ''Bad Request''" 800200
        "Status ''Forbidden''" "Refresh ''k'' ''r0''" "''Failed to refresh token: Bad Request''"] h s
    by (simp add: w_denied_def w_stale_def ti_old_def del: str_includes.simps)
qed

end
